theory Spec2Isabelle
  imports Main "HOL-Library.Word"
begin

section \<open>The ROOT objects the macros use\<close>

text \<open>
  The three macros \<^verbatim>\<open>GetEntries.C\<close>, \<^verbatim>\<open>GetEntriesAndEventNr.C\<close> and
  \<^verbatim>\<open>GetNumbers.C\<close> open a ROOT file, look up the tree named \<^verbatim>\<open>T\<close> and print its
  number of entries and the event number of its first and last entry. The ROOT classes
  (\<^verbatim>\<open>TFile\<close>, \<^verbatim>\<open>TTree\<close>, \<^verbatim>\<open>TLeaf\<close>, \<^verbatim>\<open>SyncObjectv1\<close>, \<^verbatim>\<open>FROG\<close>) are libraries
  outside the repository. They are modelled by the data they hold and by the documented
  behaviour of the member functions that the macros call.

  Machine integers: \<^verbatim>\<open>Long64_t\<close> and \<^verbatim>\<open>long\<close> are 64-bit words, \<^verbatim>\<open>int\<close> is a 32-bit
  word; \<open>sint\<close> reads the signed value, which is what \<^verbatim>\<open>operator<<\<close> prints.
\<close>

type_synonym Long64_t = "64 word"
type_synonym cint = "32 word"

text \<open>\<^verbatim>\<open>SyncObjectv1\<close>: only the event number, returned by \<^verbatim>\<open>EventNumber()\<close> as an \<^verbatim>\<open>int\<close>.\<close>

record SyncObjectv1 =
  eventnumber :: cint

definition EventNumber :: "SyncObjectv1 \<Rightarrow> cint" where
  "EventNumber so = eventnumber so"

text \<open>
  Initialising an \<^verbatim>\<open>int\<close> from a \<^verbatim>\<open>Long64_t\<close>: the value of the destination type that
  is congruent to the source value modulo \<open>2 ^ 32\<close>.
\<close>

definition Long64_to_int :: "Long64_t \<Rightarrow> cint" where
  "Long64_to_int n = word_of_int (sint n)"

text \<open>
  A tree as stored in the file: its number of entries, its leaves of integer type (by
  name, each with the value \<^verbatim>\<open>GetValueLong64\<close> gives once entry \<open>i\<close> is loaded), and its
  branches that hold a \<^verbatim>\<open>SyncObjectv1\<close> (by name, each with the object stored at entry
  \<open>i\<close>). Entries are numbered from 0 to \<open>fEntries - 1\<close>.
\<close>

record ttree =
  fEntries :: Long64_t
  leaves :: "string \<rightharpoonup> (int \<Rightarrow> Long64_t)"
  branches :: "string \<rightharpoonup> (int \<Rightarrow> SyncObjectv1)"

text \<open>A ROOT file: the trees it holds, by key name.\<close>

type_synonym tfile = "string \<rightharpoonup> ttree"

text \<open>
  What the macros leave to the framework and cannot be read off their text:
  \<^item> \<open>location\<close>: \<^verbatim>\<open>FROG::location\<close>, the path a logical file name resolves to (the
    identity when a macro is built without \<^verbatim>\<open>OFFLINE_MAIN\<close>);
  \<^item> \<open>kMAXSIGNALS\<close>: the number of signals of \<^verbatim>\<open>ESignals\<close>;
  \<^item> \<open>leaf_unread\<close>: what \<^verbatim>\<open>GetValueLong64\<close> returns while no entry has been loaded;
  \<^item> \<open>sync_on_bind\<close>: what \<^verbatim>\<open>SetBranchAddress\<close> stores in the caller's null pointer
    when the branch exists (an object it allocates, or nothing until the first read);
  \<^item> \<open>Scan\<close>: the lines \<^verbatim>\<open>TTree::Scan(varexp, "", "", nentries, firstentry)\<close> prints.
\<close>

record root_env =
  location :: "string \<Rightarrow> string"
  kMAXSIGNALS :: nat
  leaf_unread :: Long64_t
  sync_on_bind :: "SyncObjectv1 option"
  Scan :: "ttree \<Rightarrow> string \<Rightarrow> int \<Rightarrow> int \<Rightarrow> string list"

section \<open>The state of a run\<close>

text \<open>
  The outside world is the ROOT files on disk, the text files on disk and the lines on
  the terminal. A process adds: the file its standard output is redirected to, the
  signals it ignores, the entry of \<^verbatim>\<open>T\<close> that is loaded, the entry numbers it has passed
  to \<^verbatim>\<open>TTree::GetEntry\<close> (in call order), the macro's \<^verbatim>\<open>sync\<close> pointer with the branch
  it is registered for, and whether the process died on a null pointer.
\<close>

record state =
  rootfiles :: "string \<rightharpoonup> tfile"
  textfiles :: "string \<rightharpoonup> string list"
  console :: "string list"
  redirect :: "string option"
  ignored :: "nat list"
  loaded :: "int option"
  reads :: "int list"
  sync :: "SyncObjectv1 option"
  sync_branch :: "string option"
  crashed :: bool

text \<open>A new process over the same world: nothing redirected, ignored, loaded or bound.\<close>

definition new_process :: "state \<Rightarrow> state" where
  "new_process s = s\<lparr>redirect := None, ignored := [], loaded := None, reads := [],
     sync := None, sync_branch := None, crashed := False\<rparr>"

subsection \<open>Printing\<close>

text \<open>\<^verbatim>\<open>operator<<\<close> on an integer: its decimal digits, with a minus sign when negative.\<close>

definition digit :: "nat \<Rightarrow> char" where
  "digit d = ''0123456789'' ! d"

fun show_nat :: "nat \<Rightarrow> string" where
  "show_nat n = (if n < 10 then [digit n] else show_nat (n div 10) @ [digit (n mod 10)])"

declare show_nat.simps [simp del]

definition show_int :: "int \<Rightarrow> string" where
  "show_int i = (if i < 0 then CHR ''-'' # show_nat (nat (- i)) else show_nat (nat i))"

text \<open>
  \<^verbatim>\<open>cout << ... << endl\<close>: one line, to the terminal or, after \<^verbatim>\<open>RedirectOutput\<close>,
  appended to the file that receives the standard output.
\<close>

definition cout :: "string \<Rightarrow> state \<Rightarrow> state" where
  "cout l s = (case redirect s of
      None \<Rightarrow> s\<lparr>console := console s @ [l]\<rparr>
    | Some p \<Rightarrow> s\<lparr>textfiles := (textfiles s)(p \<mapsto>
        (case textfiles s p of None \<Rightarrow> [] | Some ls \<Rightarrow> ls) @ [l])\<rparr>)"

fun cout_lines :: "string list \<Rightarrow> state \<Rightarrow> state" where
  "cout_lines [] s = s"
| "cout_lines (l # ls) s = cout_lines ls (cout l s)"

subsection \<open>The framework calls\<close>

text \<open>\<^verbatim>\<open>gSystem->IgnoreSignal\<close>, and the loop over all signals that starts each macro.\<close>

definition IgnoreSignal :: "nat \<Rightarrow> state \<Rightarrow> state" where
  "IgnoreSignal i s = s\<lparr>ignored := ignored s @ [i]\<rparr>"

fun ignore_from :: "nat \<Rightarrow> nat \<Rightarrow> state \<Rightarrow> state" where
  "ignore_from i 0 s = s"
| "ignore_from i (Suc k) s = ignore_from (Suc i) k (IgnoreSignal i s)"

definition ignore_all_signals :: "root_env \<Rightarrow> state \<Rightarrow> state" where
  "ignore_all_signals env s = ignore_from 0 (kMAXSIGNALS env) s"

text \<open>\<^verbatim>\<open>TFile::Open\<close> in read mode: the file, or the null pointer when it cannot be opened.\<close>

definition TFile_Open :: "state \<Rightarrow> string \<Rightarrow> tfile option" where
  "TFile_Open s p = rootfiles s p"

text \<open>\<^verbatim>\<open>f->Get(name)\<close>, cast to \<^verbatim>\<open>TTree *\<close>: null when the file has no such key.\<close>

definition Get :: "tfile \<Rightarrow> string \<Rightarrow> ttree option" where
  "Get f name = f name"

definition GetEntries_tree :: "ttree \<Rightarrow> Long64_t" where
  "GetEntries_tree t = fEntries t"

definition GetLeaf :: "ttree \<Rightarrow> string \<Rightarrow> (int \<Rightarrow> Long64_t) option" where
  "GetLeaf t name = leaves t name"

text \<open>
  \<^verbatim>\<open>T->GetEntry(i)\<close>: when \<open>i\<close> is an entry of the tree it is loaded, and the object of
  the registered branch is stored through the registered pointer. When \<open>i\<close> is negative
  or not below the number of entries, ROOT reads nothing and returns 0: the buffers and
  the pointer keep what they held. The call is recorded either way.
\<close>

definition GetEntry :: "ttree \<Rightarrow> int \<Rightarrow> state \<Rightarrow> state" where
  "GetEntry t i s =
     (let s' = s\<lparr>reads := reads s @ [i]\<rparr>
      in if 0 \<le> i \<and> i < sint (fEntries t)
         then s'\<lparr>loaded := Some i,
                 sync := (case sync_branch s of
                            None \<Rightarrow> sync s
                          | Some b \<Rightarrow> (case branches t b of
                                         None \<Rightarrow> sync s
                                       | Some objs \<Rightarrow> Some (objs i)))\<rparr>
         else s')"

text \<open>\<^verbatim>\<open>l->GetValueLong64()\<close>: the leaf's value at the loaded entry.\<close>

definition GetValueLong64 :: "root_env \<Rightarrow> (int \<Rightarrow> Long64_t) \<Rightarrow> state \<Rightarrow> Long64_t" where
  "GetValueLong64 env l s = (case loaded s of None \<Rightarrow> leaf_unread env | Some i \<Rightarrow> l i)"

text \<open>
  \<^verbatim>\<open>T->SetBranchAddress(name, &sync)\<close> with \<^verbatim>\<open>sync\<close> null: for a branch of the tree the
  pointer is registered; for a missing branch ROOT reports an error code (which the macro
  drops) and the pointer stays as it is.
\<close>

definition SetBranchAddress :: "root_env \<Rightarrow> ttree \<Rightarrow> string \<Rightarrow> state \<Rightarrow> state" where
  "SetBranchAddress env t name s =
     (case branches t name of
        None \<Rightarrow> s
      | Some objs \<Rightarrow> s\<lparr>sync := sync_on_bind env, sync_branch := Some name\<rparr>)"

text \<open>
  \<^verbatim>\<open>gSystem->RedirectOutput(name)\<close>: the standard output goes to the file from now on,
  opened in append mode (ROOT's default), which creates it when it does not exist.
\<close>

definition RedirectOutput :: "string \<Rightarrow> state \<Rightarrow> state" where
  "RedirectOutput p s = s\<lparr>redirect := Some p,
     textfiles := (textfiles s)(p \<mapsto> (case textfiles s p of None \<Rightarrow> [] | Some ls \<Rightarrow> ls))\<rparr>"

text \<open>Calling a member function through a null pointer ends the process.\<close>

definition null_deref :: "state \<Rightarrow> state" where
  "null_deref s = s\<lparr>crashed := True\<rparr>"

section \<open>The macros\<close>

text \<open>
  Each macro takes the file name and the state it starts in and returns the state it
  ends in. The calls to \<^verbatim>\<open>gSystem->Load\<close> have no effect on that state and are left out.

  \<^verbatim>\<open>GetEntries.C\<close>. \<^verbatim>\<open>nEntries\<close> is an \<^verbatim>\<open>int\<close>: the 64-bit entry count is narrowed to 32
  bits, and \<^verbatim>\<open>nEntries - 1\<close> is computed on 32 bits. \<^verbatim>\<open>T->GetLeaf\<close> is called whether or
  not \<^verbatim>\<open>T\<close> is null.
\<close>

definition GetEntries :: "root_env \<Rightarrow> string \<Rightarrow> state \<Rightarrow> state" where
  "GetEntries env file s0 =
     (let s1 = ignore_all_signals env s0;
          f = TFile_Open s1 (location env file);
          s2 = cout (''Getting events for '' @ file) s1
      in case f of
           None \<Rightarrow> null_deref s2
         | Some tf \<Rightarrow>
            (let T = Get tf ''T'';
                 nEntries = (case T of None \<Rightarrow> (- 1 :: cint)
                              | Some t \<Rightarrow> Long64_to_int (GetEntries_tree t));
                 s3 = cout (''Number of Entries: '' @ show_int (sint nEntries)) s2
             in case T of
                  None \<Rightarrow> null_deref s3
                | Some t \<Rightarrow>
                   (case GetLeaf t ''eventnumber'' of
                      None \<Rightarrow>
                        cout (''Last event number: '' @ show_int (- 1))
                          (cout (''First event number: '' @ show_int (- 1)) s3)
                    | Some l \<Rightarrow>
                       (let s4 = GetEntry t 0 s3;
                            firstEvent = sint (GetValueLong64 env l s4);
                            s5 = GetEntry t (sint (nEntries - 1)) s4;
                            lastEvent = sint (GetValueLong64 env l s5)
                        in cout (''Last event number: '' @ show_int lastEvent)
                             (cout (''First event number: '' @ show_int firstEvent) s5)))))"

text \<open>
  \<^verbatim>\<open>GetEntriesAndEventNr.C\<close>. The entry count is printed as the 64-bit value it is; the
  two \<^verbatim>\<open>if (sync)\<close> tests follow the two reads.
\<close>

definition GetEntriesAndEventNr :: "root_env \<Rightarrow> string \<Rightarrow> state \<Rightarrow> state" where
  "GetEntriesAndEventNr env file s0 =
     (let s1 = ignore_all_signals env s0;
          f = TFile_Open s1 (location env file);
          s2 = cout (''Getting events for '' @ file) s1
      in case f of
           None \<Rightarrow> null_deref s2
         | Some tf \<Rightarrow>
            (case Get tf ''T'' of
               None \<Rightarrow>
                 cout (''Last event number: '' @ show_int (- 1))
                   (cout (''First event number: '' @ show_int (- 1))
                     (cout ''Number of Entries: -2'' s2))
             | Some t \<Rightarrow>
                (let s3 = cout (''Number of Entries: '' @ show_int (sint (GetEntries_tree t))) s2;
                     s4 = SetBranchAddress env t ''DST#Sync'' (s3\<lparr>sync := None\<rparr>);
                     s5 = GetEntry t 0 s4;
                     firstEvent = (case sync s5 of None \<Rightarrow> - 1 | Some so \<Rightarrow> sint (EventNumber so));
                     s6 = GetEntry t (sint (GetEntries_tree t - 1)) s5;
                     lastEvent = (case sync s6 of None \<Rightarrow> - 1 | Some so \<Rightarrow> sint (EventNumber so))
                 in cout (''Last event number: '' @ show_int lastEvent)
                      (cout (''First event number: '' @ show_int firstEvent) s6))))"

text \<open>
  \<^verbatim>\<open>GetNumbers.C\<close>. The output is redirected before the tree is looked up; with a tree
  the macro returns after the two scans, without one it prints four lines.
  \<^verbatim>\<open>SetScanField(0)\<close> only keeps \<^verbatim>\<open>Scan\<close> from pausing between pages; it is part of
  what \<open>Scan env\<close> stands for.
\<close>

definition GetNumbers :: "root_env \<Rightarrow> string \<Rightarrow> state \<Rightarrow> state" where
  "GetNumbers env file s0 =
     (let s1 = ignore_all_signals env s0;
          f = TFile_Open s1 (location env file);
          s2 = RedirectOutput ''numbers.txt'' s1
      in case f of
           None \<Rightarrow> null_deref s2
         | Some tf \<Rightarrow>
            (case Get tf ''T'' of
               Some t \<Rightarrow>
                (let nEntries = Long64_to_int (GetEntries_tree t);
                     s3 = cout (''nEntries '' @ show_int (sint nEntries)) s2;
                     s4 = cout_lines (Scan env t ''eventnumber'' 1 0) s3
                 in cout_lines (Scan env t ''eventnumber'' 1 (sint (nEntries - 1))) s4)
             | None \<Rightarrow>
                (let nEntries = (- 1 :: cint)
                 in cout (''dummyLast '' @ show_int (- 1))
                      (cout (''dummyFirst '' @ show_int (- 1))
                        (cout (''dummyEntries '' @ show_int (sint nEntries))
                          (cout '' ***** T is null, dummy values'' s2))))))"

section \<open>Words of the specification\<close>

text \<open>
  The specification speaks of a count ``reduced modulo \<open>2 ^ 32\<close> and interpreted as
  signed''. This definition follows those words; \<open>sint_Long64_to_int\<close> below shows that
  it is what the conversion of the source computes.
\<close>

definition wrap32 :: "int \<Rightarrow> int" where
  "wrap32 n = (let r = n mod 2 ^ 32 in if r < 2 ^ 31 then r else r - 2 ^ 32)"

section \<open>Example framework and files\<close>

text \<open>
  A framework to run the macros on concrete files: file names are paths, sixteen
  signals, a leaf reads 0 before any entry is loaded, \<^verbatim>\<open>SetBranchAddress\<close> leaves the
  pointer null until the first read, and \<^verbatim>\<open>Scan\<close> prints the entry number and the
  value of the leaf for the one entry it is asked for, nothing when the tree has no such
  entry or no such leaf.
\<close>

definition scan_rows :: "ttree \<Rightarrow> string \<Rightarrow> int \<Rightarrow> int \<Rightarrow> string list" where
  "scan_rows t v n first =
     (case leaves t v of
        None \<Rightarrow> []
      | Some l \<Rightarrow> if 0 < n \<and> 0 \<le> first \<and> first < sint (fEntries t)
                  then [show_int first @ '' '' @ show_int (sint (l first))] else [])"

definition plain_env :: root_env where
  "plain_env = \<lparr>location = (\<lambda>p. p), kMAXSIGNALS = 16, leaf_unread = 0,
     sync_on_bind = None, Scan = scan_rows\<rparr>"

text \<open>The same framework, with a \<^verbatim>\<open>SetBranchAddress\<close> that allocates the object at once.\<close>

definition eager_env :: root_env where
  "eager_env = plain_env\<lparr>sync_on_bind := Some \<lparr>eventnumber = 0\<rparr>\<rparr>"

text \<open>A ROOT file without a tree \<^verbatim>\<open>T\<close>, and one that holds the given tree as \<^verbatim>\<open>T\<close>.\<close>

definition file_without_T :: tfile where
  "file_without_T = Map.empty"

definition file_of :: "ttree \<Rightarrow> tfile" where
  "file_of t = file_without_T(''T'' \<mapsto> t)"

text \<open>
  A disk with the single ROOT file \<^verbatim>\<open>dst.root\<close>, no text file and an empty terminal,
  seen by a process that has not done anything yet.
\<close>

definition disk :: "tfile \<Rightarrow> state" where
  "disk f = \<lparr>rootfiles = Map.empty(''dst.root'' \<mapsto> f), textfiles = Map.empty, console = [],
     redirect = None, ignored = [], loaded = None, reads = [], sync = None,
     sync_branch = None, crashed = False\<rparr>"

text \<open>
  Trees with \<open>n\<close> entries. In \<open>tree_of n\<close> entry \<open>i\<close> has event number \<open>101 + i\<close>, both in
  the leaf \<^verbatim>\<open>eventnumber\<close> and in the object of the branch \<^verbatim>\<open>DST#Sync\<close>;
  \<open>bare_tree_of n\<close> has neither the leaf nor the branch.
\<close>

definition ids :: "int \<Rightarrow> Long64_t" where
  "ids i = word_of_int (101 + i)"

definition syncs :: "int \<Rightarrow> SyncObjectv1" where
  "syncs i = \<lparr>eventnumber = word_of_int (101 + i)\<rparr>"

definition tree_of :: "Long64_t \<Rightarrow> ttree" where
  "tree_of n = \<lparr>fEntries = n, leaves = Map.empty(''eventnumber'' \<mapsto> ids),
     branches = Map.empty(''DST#Sync'' \<mapsto> syncs)\<rparr>"

definition bare_tree_of :: "Long64_t \<Rightarrow> ttree" where
  "bare_tree_of n = \<lparr>fEntries = n, leaves = Map.empty, branches = Map.empty\<rparr>"

section \<open>Evaluation and unfolding rules\<close>

lemma digit_simps:
  "digit 0 = CHR ''0''" "digit 1 = CHR ''1''" "digit 2 = CHR ''2''" "digit 3 = CHR ''3''"
  "digit 4 = CHR ''4''" "digit 5 = CHR ''5''" "digit 6 = CHR ''6''" "digit 7 = CHR ''7''"
  "digit 8 = CHR ''8''" "digit 9 = CHR ''9''" "digit (Suc 0) = CHR ''1''"
  by (simp_all add: digit_def)

lemmas print_defs = show_int_def show_nat.simps digit_simps

lemmas example_defs = plain_env_def eager_env_def file_without_T_def file_of_def disk_def
  ids_def syncs_def tree_of_def bare_tree_of_def scan_rows_def

section \<open>Arithmetic of the 32-bit count\<close>

lemma wrap32_shift: "wrap32 n = (n + 2 ^ 31) mod 2 ^ 32 - 2 ^ 31"
proof -
  define r where "r = n mod 4294967296"
  have r: "0 \<le> r" "r < 4294967296" by (simp_all add: r_def)
  have e: "(n + 2147483648) mod 4294967296 = (r + 2147483648) mod 4294967296"
    unfolding r_def by (simp add: mod_add_left_eq)
  show ?thesis
  proof (cases "r < 2147483648")
    case True
    with r have "(r + 2147483648) mod 4294967296 = r + 2147483648"
      by (simp add: mod_pos_pos_trivial)
    with True e show ?thesis by (simp add: wrap32_def Let_def r_def)
  next
    case False
    have "r + 2147483648 = r - 2147483648 + 4294967296" by simp
    then have "(r + 2147483648) mod 4294967296 = (r - 2147483648 + 4294967296) mod 4294967296"
      by (rule arg_cong)
    also have "\<dots> = (r - 2147483648) mod 4294967296"
      by (rule mod_add_self2)
    also from False r have "\<dots> = r - 2147483648"
      by (simp add: mod_pos_pos_trivial)
    finally show ?thesis using False e by (simp add: wrap32_def Let_def r_def)
  qed
qed

lemma sint_narrow: "sint (word_of_int k :: cint) = wrap32 k"
  by (simp add: int_word_sint wrap32_shift)

lemma sint_Long64_to_int: "sint (Long64_to_int n) = wrap32 (sint n)"
  unfolding Long64_to_int_def by (rule sint_narrow)

lemma sint_Long64_to_int_minus1: "sint (Long64_to_int n - 1) = wrap32 (sint n - 1)"
proof -
  have "Long64_to_int n - 1 = word_of_int (sint n - 1)"
    by (simp add: Long64_to_int_def)
  then show ?thesis by (simp only: sint_narrow)
qed

lemma wrap32_id: "- (2 ^ 31) \<le> n \<Longrightarrow> n < 2 ^ 31 \<Longrightarrow> wrap32 n = n"
  unfolding wrap32_shift by (simp add: mod_pos_pos_trivial)

lemma wrap32_less: "wrap32 n < 2 ^ 31"
proof -
  have "(n + 2 ^ 31) mod 2 ^ 32 < (2 ^ 32 :: int)" by simp
  then show ?thesis unfolding wrap32_shift by simp
qed

lemma wrap32_neq: "2 ^ 31 \<le> n \<Longrightarrow> wrap32 n \<noteq> n"
  using wrap32_less [of n] by simp

lemma wrap32_pred: "wrap32 n \<noteq> - (2 ^ 31) \<Longrightarrow> wrap32 (n - 1) = wrap32 n - 1"
proof -
  assume a: "wrap32 n \<noteq> - (2 ^ 31)"
  define m where "m = (n + 2147483648) mod 4294967296"
  have m: "0 \<le> m" "m < 4294967296" by (simp_all add: m_def)
  from a have "m \<noteq> 0" by (simp add: wrap32_shift m_def)
  with m have m1: "0 \<le> m - 1" "m - 1 < 4294967296" by simp_all
  have "n - 1 + 2147483648 = (n + 2147483648) - 1" by simp
  then have "(n - 1 + 2147483648) mod 4294967296 = ((n + 2147483648) - 1) mod 4294967296"
    by (rule arg_cong)
  also have "\<dots> = (m - 1) mod 4294967296"
    unfolding m_def by (simp only: mod_diff_left_eq)
  also from m1 have "\<dots> = m - 1" by (simp add: mod_pos_pos_trivial)
  finally show ?thesis by (simp add: wrap32_shift m_def)
qed

section \<open>What every run leaves alone\<close>

lemma ignore_from_eq: "ignore_from i k s = s\<lparr>ignored := ignored s @ [i..<i + k]\<rparr>"
proof (induction k arbitrary: i s)
  case 0
  show ?case by simp
next
  case (Suc k)
  have "[i..<i + Suc k] = i # [Suc i..<Suc i + k]"
    by (simp add: upt_conv_Cons)
  with Suc show ?case
    by (simp add: IgnoreSignal_def)
qed

lemma ignore_all_signals_eq:
  "ignore_all_signals env s = s\<lparr>ignored := ignored s @ [0..<kMAXSIGNALS env]\<rparr>"
  by (simp add: ignore_all_signals_def ignore_from_eq)

lemma rootfiles_cout [simp]: "rootfiles (cout l s) = rootfiles s"
  by (simp add: cout_def split: option.split)

lemma rootfiles_cout_lines [simp]: "rootfiles (cout_lines ls s) = rootfiles s"
  by (induction ls arbitrary: s) simp_all

lemma rootfiles_GetEntry [simp]: "rootfiles (GetEntry t i s) = rootfiles s"
  by (simp add: GetEntry_def Let_def)

lemma rootfiles_SetBranchAddress [simp]:
  "rootfiles (SetBranchAddress env t b s) = rootfiles s"
  by (simp add: SetBranchAddress_def split: option.split)

lemma rootfiles_GetEntries: "rootfiles (GetEntries env file s) = rootfiles s"
  by (simp add: GetEntries_def Let_def ignore_all_signals_eq null_deref_def
      split: option.split)

lemma rootfiles_GetEntriesAndEventNr:
  "rootfiles (GetEntriesAndEventNr env file s) = rootfiles s"
  by (simp add: GetEntriesAndEventNr_def Let_def ignore_all_signals_eq null_deref_def
      split: option.split)

lemma rootfiles_GetNumbers: "rootfiles (GetNumbers env file s) = rootfiles s"
  by (simp add: GetNumbers_def Let_def ignore_all_signals_eq null_deref_def
      RedirectOutput_def split: option.split)

lemmas call_defs = ignore_all_signals_eq TFile_Open_def Get_def GetEntries_tree_def GetLeaf_def
  GetEntry_def GetValueLong64_def SetBranchAddress_def RedirectOutput_def null_deref_def
  cout_def new_process_def EventNumber_def Let_def

lemma sint_minus1_64: "0 < sint (n :: Long64_t) \<Longrightarrow> sint (n - 1) = sint n - 1"
proof -
  assume pos: "0 < sint n"
  have "sint n < 2 ^ (LENGTH(64) - 1)" by (rule sint_lt)
  then have up: "sint n < 2 ^ 63" by simp
  have "sint (n - 1) = signed_take_bit 63 (sint n - 1)"
    by (simp add: sint_word_ariths)
  also from pos up have "\<dots> = sint n - 1"
    by (simp add: signed_take_bit_int_eq_self)
  finally show ?thesis .
qed

section \<open>How the framework calls act on the state\<close>

lemma show_int_sentinels: "show_int (- 1) = ''-1''" "show_int (- 2) = ''-2''"
  by (simp_all add: print_defs)

lemma new_process_fields [simp]:
  "rootfiles (new_process s) = rootfiles s" "textfiles (new_process s) = textfiles s"
  "console (new_process s) = console s" "redirect (new_process s) = None"
  "ignored (new_process s) = []" "loaded (new_process s) = None"
  "reads (new_process s) = []" "sync (new_process s) = None"
  "sync_branch (new_process s) = None" "crashed (new_process s) = False"
  by (simp_all add: new_process_def)

lemma ignore_all_signals_fields [simp]:
  "rootfiles (ignore_all_signals env s) = rootfiles s"
  "textfiles (ignore_all_signals env s) = textfiles s"
  "console (ignore_all_signals env s) = console s"
  "redirect (ignore_all_signals env s) = redirect s"
  "loaded (ignore_all_signals env s) = loaded s"
  "reads (ignore_all_signals env s) = reads s"
  "sync (ignore_all_signals env s) = sync s"
  "sync_branch (ignore_all_signals env s) = sync_branch s"
  "crashed (ignore_all_signals env s) = crashed s"
  by (simp_all add: ignore_all_signals_eq)

lemma cout_fields [simp]:
  "redirect (cout l s) = redirect s" "ignored (cout l s) = ignored s"
  "loaded (cout l s) = loaded s" "reads (cout l s) = reads s" "sync (cout l s) = sync s"
  "sync_branch (cout l s) = sync_branch s" "crashed (cout l s) = crashed s"
  by (simp_all add: cout_def split: option.split)

lemma cout_terminal [simp]:
  "redirect s = None \<Longrightarrow> console (cout l s) = console s @ [l]"
  "redirect s = None \<Longrightarrow> textfiles (cout l s) = textfiles s"
  by (simp_all add: cout_def)

lemma cout_redirected [simp]:
  "redirect s = Some p \<Longrightarrow> console (cout l s) = console s"
  "redirect s = Some p \<Longrightarrow> textfiles (cout l s) =
     (textfiles s)(p \<mapsto> (case textfiles s p of None \<Rightarrow> [] | Some ls \<Rightarrow> ls) @ [l])"
  by (simp_all add: cout_def)

lemma cout_lines_fields [simp]:
  "redirect (cout_lines ls s) = redirect s" "ignored (cout_lines ls s) = ignored s"
  "loaded (cout_lines ls s) = loaded s" "reads (cout_lines ls s) = reads s"
  "sync (cout_lines ls s) = sync s" "sync_branch (cout_lines ls s) = sync_branch s"
  "crashed (cout_lines ls s) = crashed s"
  by (induction ls arbitrary: s; simp)+

lemma cout_lines_redirected:
  "redirect s = Some p \<Longrightarrow> textfiles s p = Some old \<Longrightarrow>
     console (cout_lines ls s) = console s \<and>
     textfiles (cout_lines ls s) = (textfiles s)(p \<mapsto> old @ ls)"
proof (induction ls arbitrary: s old)
  case Nil
  then show ?case by (simp add: map_upd_triv)
next
  case (Cons l ls)
  from Cons.prems have "redirect (cout l s) = Some p"
    and "textfiles (cout l s) p = Some (old @ [l])"
    by simp_all
  from Cons.IH [OF this] Cons.prems show ?case by (simp add: fun_eq_iff)
qed

lemma GetEntry_fields [simp]:
  "textfiles (GetEntry t i s) = textfiles s" "console (GetEntry t i s) = console s"
  "redirect (GetEntry t i s) = redirect s" "ignored (GetEntry t i s) = ignored s"
  "sync_branch (GetEntry t i s) = sync_branch s" "crashed (GetEntry t i s) = crashed s"
  "reads (GetEntry t i s) = reads s @ [i]"
  by (simp_all add: GetEntry_def Let_def)

lemma loaded_GetEntry:
  "loaded (GetEntry t i s) = (if 0 \<le> i \<and> i < sint (fEntries t) then Some i else loaded s)"
  by (simp add: GetEntry_def Let_def)

lemma sync_GetEntry_unbound: "sync_branch s = None \<Longrightarrow> sync (GetEntry t i s) = sync s"
  by (simp add: GetEntry_def Let_def)

lemma sync_GetEntry_bound:
  "sync_branch s = Some b \<Longrightarrow> branches t b = Some objs \<Longrightarrow>
     sync (GetEntry t i s) = (if 0 \<le> i \<and> i < sint (fEntries t) then Some (objs i) else sync s)"
  by (simp add: GetEntry_def Let_def)

lemma sync_GetEntry_mono: "sync (GetEntry t i s) = None \<Longrightarrow> sync s = None"
  by (simp add: GetEntry_def Let_def split: if_splits option.splits)

lemma SetBranchAddress_fields [simp]:
  "textfiles (SetBranchAddress env t b s) = textfiles s"
  "console (SetBranchAddress env t b s) = console s"
  "redirect (SetBranchAddress env t b s) = redirect s"
  "ignored (SetBranchAddress env t b s) = ignored s"
  "loaded (SetBranchAddress env t b s) = loaded s"
  "reads (SetBranchAddress env t b s) = reads s"
  "crashed (SetBranchAddress env t b s) = crashed s"
  by (simp_all add: SetBranchAddress_def split: option.split)

lemma SetBranchAddress_missing: "branches t b = None \<Longrightarrow> SetBranchAddress env t b s = s"
  by (simp add: SetBranchAddress_def)

lemma SetBranchAddress_found:
  "branches t b = Some objs \<Longrightarrow> sync (SetBranchAddress env t b s) = sync_on_bind env"
  "branches t b = Some objs \<Longrightarrow> sync_branch (SetBranchAddress env t b s) = Some b"
  by (simp_all add: SetBranchAddress_def)

lemma RedirectOutput_fields [simp]:
  "rootfiles (RedirectOutput p s) = rootfiles s" "console (RedirectOutput p s) = console s"
  "redirect (RedirectOutput p s) = Some p" "ignored (RedirectOutput p s) = ignored s"
  "loaded (RedirectOutput p s) = loaded s" "reads (RedirectOutput p s) = reads s"
  "sync (RedirectOutput p s) = sync s" "sync_branch (RedirectOutput p s) = sync_branch s"
  "crashed (RedirectOutput p s) = crashed s"
  "textfiles (RedirectOutput p s) =
     (textfiles s)(p \<mapsto> (case textfiles s p of None \<Rightarrow> [] | Some ls \<Rightarrow> ls))"
  by (simp_all add: RedirectOutput_def)

lemma null_deref_fields [simp]:
  "rootfiles (null_deref s) = rootfiles s" "textfiles (null_deref s) = textfiles s"
  "console (null_deref s) = console s" "redirect (null_deref s) = redirect s"
  "ignored (null_deref s) = ignored s" "loaded (null_deref s) = loaded s"
  "reads (null_deref s) = reads s" "sync (null_deref s) = sync s"
  "sync_branch (null_deref s) = sync_branch s" "crashed (null_deref s) = True"
  by (simp_all add: null_deref_def)

lemma TFile_Open_process [simp]:
  "TFile_Open (ignore_all_signals env (new_process s)) p = TFile_Open s p"
  by (simp add: TFile_Open_def)

section \<open>The runs on a file that holds the tree\<close>

lemma GetEntries_without_leaf:
  assumes "TFile_Open s (location env file) = Some tf" and "Get tf ''T'' = Some t"
    and "GetLeaf t ''eventnumber'' = None"
  shows "console (GetEntries env file (new_process s)) = console s @
      [''Getting events for '' @ file,
       ''Number of Entries: '' @ show_int (wrap32 (sint (fEntries t))),
       ''First event number: -1'', ''Last event number: -1'']"
    and "reads (GetEntries env file (new_process s)) = []"
    and "\<not> crashed (GetEntries env file (new_process s))"
  using assms
  by (simp_all add: GetEntries_def Let_def GetEntries_tree_def sint_Long64_to_int
      show_int_sentinels)

lemma GetEntries_with_leaf:
  assumes "TFile_Open s (location env file) = Some tf" and "Get tf ''T'' = Some t"
    and "GetLeaf t ''eventnumber'' = Some l"
  shows "console (GetEntries env file (new_process s)) = console s @
      [''Getting events for '' @ file,
       ''Number of Entries: '' @ show_int (wrap32 (sint (fEntries t))),
       ''First event number: '' @
          show_int (sint (GetValueLong64 env l (GetEntry t 0 (new_process s)))),
       ''Last event number: '' @
          show_int (sint (GetValueLong64 env l (GetEntries env file (new_process s))))]"
    and "loaded (GetEntries env file (new_process s)) =
      loaded (GetEntry t (wrap32 (sint (fEntries t) - 1)) (GetEntry t 0 (new_process s)))"
    and "reads (GetEntries env file (new_process s)) = [0, wrap32 (sint (fEntries t) - 1)]"
    and "\<not> crashed (GetEntries env file (new_process s))"
  using assms
  by (simp_all add: GetEntries_def Let_def GetEntries_tree_def sint_Long64_to_int
      sint_Long64_to_int_minus1 GetValueLong64_def loaded_GetEntry)

lemma GetEntriesAndEventNr_with_tree:
  assumes "TFile_Open s (location env file) = Some tf" and "Get tf ''T'' = Some t"
  shows "console (GetEntriesAndEventNr env file (new_process s)) = console s @
      [''Getting events for '' @ file,
       ''Number of Entries: '' @ show_int (sint (fEntries t)),
       ''First event number: '' @ show_int
          (case sync (GetEntry t 0 (SetBranchAddress env t ''DST#Sync'' (new_process s))) of
             None \<Rightarrow> - 1 | Some so \<Rightarrow> sint (EventNumber so)),
       ''Last event number: '' @ show_int
          (case sync (GetEntriesAndEventNr env file (new_process s)) of
             None \<Rightarrow> - 1 | Some so \<Rightarrow> sint (EventNumber so))]"
    and "sync (GetEntriesAndEventNr env file (new_process s)) =
      sync (GetEntry t (sint (fEntries t - 1))
        (GetEntry t 0 (SetBranchAddress env t ''DST#Sync'' (new_process s))))"
    and "reads (GetEntriesAndEventNr env file (new_process s)) = [0, sint (fEntries t - 1)]"
    and "\<not> crashed (GetEntriesAndEventNr env file (new_process s))"
proof -
  show "reads (GetEntriesAndEventNr env file (new_process s)) = [0, sint (fEntries t - 1)]"
    and "\<not> crashed (GetEntriesAndEventNr env file (new_process s))"
    using assms by (simp_all add: GetEntriesAndEventNr_def Let_def GetEntries_tree_def)
  show c: "sync (GetEntriesAndEventNr env file (new_process s)) =
      sync (GetEntry t (sint (fEntries t - 1))
        (GetEntry t 0 (SetBranchAddress env t ''DST#Sync'' (new_process s))))"
  proof (cases "branches t ''DST#Sync''")
    case None
    with assms show ?thesis
      by (simp add: GetEntriesAndEventNr_def Let_def GetEntries_tree_def
          SetBranchAddress_missing sync_GetEntry_unbound)
  next
    case (Some objs)
    with assms show ?thesis
      by (simp add: GetEntriesAndEventNr_def Let_def GetEntries_tree_def
          sync_GetEntry_bound [OF _ Some] SetBranchAddress_found [OF Some])
  qed
  show "console (GetEntriesAndEventNr env file (new_process s)) = console s @
      [''Getting events for '' @ file,
       ''Number of Entries: '' @ show_int (sint (fEntries t)),
       ''First event number: '' @ show_int
          (case sync (GetEntry t 0 (SetBranchAddress env t ''DST#Sync'' (new_process s))) of
             None \<Rightarrow> - 1 | Some so \<Rightarrow> sint (EventNumber so)),
       ''Last event number: '' @ show_int
          (case sync (GetEntriesAndEventNr env file (new_process s)) of
             None \<Rightarrow> - 1 | Some so \<Rightarrow> sint (EventNumber so))]"
    unfolding c
  proof (cases "branches t ''DST#Sync''")
    case None
    with assms show "console (GetEntriesAndEventNr env file (new_process s)) = console s @
      [''Getting events for '' @ file,
       ''Number of Entries: '' @ show_int (sint (fEntries t)),
       ''First event number: '' @ show_int
          (case sync (GetEntry t 0 (SetBranchAddress env t ''DST#Sync'' (new_process s))) of
             None \<Rightarrow> - 1 | Some so \<Rightarrow> sint (EventNumber so)),
       ''Last event number: '' @ show_int
          (case sync (GetEntry t (sint (fEntries t - 1))
        (GetEntry t 0 (SetBranchAddress env t ''DST#Sync'' (new_process s)))) of
             None \<Rightarrow> - 1 | Some so \<Rightarrow> sint (EventNumber so))]"
      by (simp add: GetEntriesAndEventNr_def Let_def GetEntries_tree_def
          SetBranchAddress_missing sync_GetEntry_unbound)
  next
    case (Some objs)
    with assms show "console (GetEntriesAndEventNr env file (new_process s)) = console s @
      [''Getting events for '' @ file,
       ''Number of Entries: '' @ show_int (sint (fEntries t)),
       ''First event number: '' @ show_int
          (case sync (GetEntry t 0 (SetBranchAddress env t ''DST#Sync'' (new_process s))) of
             None \<Rightarrow> - 1 | Some so \<Rightarrow> sint (EventNumber so)),
       ''Last event number: '' @ show_int
          (case sync (GetEntry t (sint (fEntries t - 1))
        (GetEntry t 0 (SetBranchAddress env t ''DST#Sync'' (new_process s)))) of
             None \<Rightarrow> - 1 | Some so \<Rightarrow> sint (EventNumber so))]"
      by (simp add: GetEntriesAndEventNr_def Let_def GetEntries_tree_def
          sync_GetEntry_bound [OF _ Some] SetBranchAddress_found [OF Some])
  qed
qed

section \<open>The runs on a file without the tree, and on no file\<close>

lemma GetEntriesAndEventNr_without_tree:
  assumes "TFile_Open s (location env file) = Some tf" and "Get tf ''T'' = None"
  shows "console (GetEntriesAndEventNr env file (new_process s)) = console s @
      [''Getting events for '' @ file, ''Number of Entries: -2'',
       ''First event number: -1'', ''Last event number: -1'']"
    and "reads (GetEntriesAndEventNr env file (new_process s)) = []"
    and "\<not> crashed (GetEntriesAndEventNr env file (new_process s))"
  using assms by (simp_all add: GetEntriesAndEventNr_def Let_def show_int_sentinels)

lemma GetEntries_without_tree:
  assumes "TFile_Open s (location env file) = Some tf" and "Get tf ''T'' = None"
  shows "console (GetEntries env file (new_process s)) = console s @
      [''Getting events for '' @ file, ''Number of Entries: -1'']"
    and "reads (GetEntries env file (new_process s)) = []"
    and "crashed (GetEntries env file (new_process s))"
  using assms by (simp_all add: GetEntries_def Let_def show_int_sentinels)

lemma unopened:
  assumes "TFile_Open s (location env file) = None"
  shows "console (GetEntries env file (new_process s)) = console s @ [''Getting events for '' @ file]"
    and "reads (GetEntries env file (new_process s)) = []"
    and "crashed (GetEntries env file (new_process s))"
    and "console (GetEntriesAndEventNr env file (new_process s)) =
      console s @ [''Getting events for '' @ file]"
    and "reads (GetEntriesAndEventNr env file (new_process s)) = []"
    and "crashed (GetEntriesAndEventNr env file (new_process s))"
  using assms by (simp_all add: GetEntries_def GetEntriesAndEventNr_def Let_def)

section \<open>The runs of GetNumbers\<close>

lemma GetNumbers_unopened:
  assumes "TFile_Open s (location env file) = None"
  shows "textfiles (GetNumbers env file (new_process s)) = (textfiles s)(''numbers.txt'' \<mapsto>
      (case textfiles s ''numbers.txt'' of None \<Rightarrow> [] | Some ls \<Rightarrow> ls))"
    and "console (GetNumbers env file (new_process s)) = console s"
    and "crashed (GetNumbers env file (new_process s))"
  using assms by (simp_all add: GetNumbers_def Let_def)

lemma GetNumbers_without_tree:
  assumes "TFile_Open s (location env file) = Some tf" and "Get tf ''T'' = None"
  shows "textfiles (GetNumbers env file (new_process s)) = (textfiles s)(''numbers.txt'' \<mapsto>
      (case textfiles s ''numbers.txt'' of None \<Rightarrow> [] | Some ls \<Rightarrow> ls) @
      ['' ***** T is null, dummy values'', ''dummyEntries -1'', ''dummyFirst -1'',
       ''dummyLast -1''])"
    and "console (GetNumbers env file (new_process s)) = console s"
    and "\<not> crashed (GetNumbers env file (new_process s))"
  using assms by (simp_all add: GetNumbers_def Let_def show_int_sentinels)

lemma GetNumbers_with_tree:
  assumes "TFile_Open s (location env file) = Some tf" and "Get tf ''T'' = Some t"
  shows "textfiles (GetNumbers env file (new_process s)) = (textfiles s)(''numbers.txt'' \<mapsto>
      (case textfiles s ''numbers.txt'' of None \<Rightarrow> [] | Some ls \<Rightarrow> ls) @
      (''nEntries '' @ show_int (sint (Long64_to_int (fEntries t)))) #
      Scan env t ''eventnumber'' 1 0 @
      Scan env t ''eventnumber'' 1 (sint (Long64_to_int (fEntries t) - 1)))"
    and "console (GetNumbers env file (new_process s)) = console s"
    and "\<not> crashed (GetNumbers env file (new_process s))"
proof -
  define old where "old = (case textfiles s ''numbers.txt'' of None \<Rightarrow> [] | Some ls \<Rightarrow> ls)"
  define l1 where "l1 = ''nEntries '' @ show_int (sint (Long64_to_int (fEntries t)))"
  define s3 where "s3 = cout l1
    (RedirectOutput ''numbers.txt'' (ignore_all_signals env (new_process s)))"
  define s4 where "s4 = cout_lines (Scan env t ''eventnumber'' 1 0) s3"
  have run: "GetNumbers env file (new_process s) =
      cout_lines (Scan env t ''eventnumber'' 1 (sint (Long64_to_int (fEntries t) - 1))) s4"
    using assms by (simp add: GetNumbers_def Let_def GetEntries_tree_def s4_def s3_def l1_def)
  have r3: "redirect s3 = Some ''numbers.txt''" and c3: "console s3 = console s"
    and k3: "\<not> crashed s3"
    and t3: "textfiles s3 = (textfiles s)(''numbers.txt'' \<mapsto> old @ [l1])"
    by (simp_all add: s3_def old_def)
  from t3 have "textfiles s3 ''numbers.txt'' = Some (old @ [l1])" by simp
  from cout_lines_redirected [OF r3 this, of "Scan env t ''eventnumber'' 1 0"] t3 c3
  have c4: "console s4 = console s"
    and t4: "textfiles s4 = (textfiles s)(''numbers.txt'' \<mapsto>
        old @ [l1] @ Scan env t ''eventnumber'' 1 0)"
    by (simp_all add: s4_def)
  have r4: "redirect s4 = Some ''numbers.txt''" and k4: "\<not> crashed s4"
    using r3 k3 by (simp_all add: s4_def)
  from t4 have "textfiles s4 ''numbers.txt'' = Some (old @ [l1] @ Scan env t ''eventnumber'' 1 0)"
    by simp
  from cout_lines_redirected [OF r4 this,
      of "Scan env t ''eventnumber'' 1 (sint (Long64_to_int (fEntries t) - 1))"] t4 c4
  show "textfiles (GetNumbers env file (new_process s)) = (textfiles s)(''numbers.txt'' \<mapsto>
      (case textfiles s ''numbers.txt'' of None \<Rightarrow> [] | Some ls \<Rightarrow> ls) @
      (''nEntries '' @ show_int (sint (Long64_to_int (fEntries t)))) #
      Scan env t ''eventnumber'' 1 0 @
      Scan env t ''eventnumber'' 1 (sint (Long64_to_int (fEntries t) - 1)))"
    and "console (GetNumbers env file (new_process s)) = console s"
    by (simp_all add: run old_def l1_def)
  from k4 show "\<not> crashed (GetNumbers env file (new_process s))"
    by (simp add: run)
qed

section \<open>Two runs on the same files\<close>

lemma sync_after_bind_read:
  "sync (GetEntry t i (SetBranchAddress env t b (new_process s))) =
     (case branches t b of
        None \<Rightarrow> None
      | Some objs \<Rightarrow> if 0 \<le> i \<and> i < sint (fEntries t) then Some (objs i)
                     else sync_on_bind env)"
proof (cases "branches t b")
  case None
  then show ?thesis by (simp add: SetBranchAddress_missing sync_GetEntry_unbound)
next
  case (Some objs)
  then show ?thesis
    by (simp add: sync_GetEntry_bound [OF _ Some] SetBranchAddress_found [OF Some])
qed

lemma sync_after_bind_read_read:
  "sync (GetEntry t j (GetEntry t i (SetBranchAddress env t b (new_process s)))) =
     (case branches t b of
        None \<Rightarrow> None
      | Some objs \<Rightarrow> if 0 \<le> j \<and> j < sint (fEntries t) then Some (objs j)
                     else if 0 \<le> i \<and> i < sint (fEntries t) then Some (objs i)
                     else sync_on_bind env)"
proof (cases "branches t b")
  case None
  then show ?thesis by (simp add: SetBranchAddress_missing sync_GetEntry_unbound)
next
  case (Some objs)
  then show ?thesis
    by (simp add: sync_GetEntry_bound [OF _ Some] SetBranchAddress_found [OF Some])
qed

lemma GetEntries_same_report:
  assumes "rootfiles s' = rootfiles s"
  shows "\<exists>L. console (GetEntries env file (new_process s)) = console s @ L \<and>
             console (GetEntries env file (new_process s')) = console s' @ L"
    and "crashed (GetEntries env file (new_process s')) =
           crashed (GetEntries env file (new_process s))"
    and "reads (GetEntries env file (new_process s')) =
           reads (GetEntries env file (new_process s))"
proof -
  have o: "TFile_Open s' (location env file) = TFile_Open s (location env file)"
    by (simp add: TFile_Open_def assms)
  show "\<exists>L. console (GetEntries env file (new_process s)) = console s @ L \<and>
             console (GetEntries env file (new_process s')) = console s' @ L"
  proof (cases "TFile_Open s (location env file)")
    case None
    with o have "TFile_Open s' (location env file) = None" by simp
    from unopened(1) [OF None] unopened(1) [OF this] show ?thesis by simp
  next
    case (Some tf)
    with o have Some': "TFile_Open s' (location env file) = Some tf" by simp
    show ?thesis
    proof (cases "Get tf ''T''")
      case None
      from GetEntries_without_tree(1) [OF Some None] GetEntries_without_tree(1) [OF Some' None]
      show ?thesis by simp
    next
      case tree: (Some t)
      show ?thesis
      proof (cases "GetLeaf t ''eventnumber''")
        case None
        from GetEntries_without_leaf(1) [OF Some tree None]
          GetEntries_without_leaf(1) [OF Some' tree None]
        show ?thesis by simp
      next
        case leaf: (Some l)
        from GetEntries_with_leaf(1,2) [OF Some tree leaf]
          GetEntries_with_leaf(1,2) [OF Some' tree leaf]
        show ?thesis by (simp add: GetValueLong64_def loaded_GetEntry)
      qed
    qed
  qed
  show "crashed (GetEntries env file (new_process s')) =
           crashed (GetEntries env file (new_process s))"
    and "reads (GetEntries env file (new_process s')) =
           reads (GetEntries env file (new_process s))"
    using o
    by (simp_all add: GetEntries_def Let_def split: option.split)
qed

lemma GetEntriesAndEventNr_same_report:
  assumes "rootfiles s' = rootfiles s"
  shows "\<exists>L. console (GetEntriesAndEventNr env file (new_process s)) = console s @ L \<and>
             console (GetEntriesAndEventNr env file (new_process s')) = console s' @ L"
    and "crashed (GetEntriesAndEventNr env file (new_process s')) =
           crashed (GetEntriesAndEventNr env file (new_process s))"
    and "reads (GetEntriesAndEventNr env file (new_process s')) =
           reads (GetEntriesAndEventNr env file (new_process s))"
proof -
  have o: "TFile_Open s' (location env file) = TFile_Open s (location env file)"
    by (simp add: TFile_Open_def assms)
  show "\<exists>L. console (GetEntriesAndEventNr env file (new_process s)) = console s @ L \<and>
             console (GetEntriesAndEventNr env file (new_process s')) = console s' @ L"
  proof (cases "TFile_Open s (location env file)")
    case None
    with o have "TFile_Open s' (location env file) = None" by simp
    from unopened(4) [OF None] unopened(4) [OF this] show ?thesis by simp
  next
    case (Some tf)
    with o have Some': "TFile_Open s' (location env file) = Some tf" by simp
    show ?thesis
    proof (cases "Get tf ''T''")
      case None
      from GetEntriesAndEventNr_without_tree(1) [OF Some None]
        GetEntriesAndEventNr_without_tree(1) [OF Some' None]
      show ?thesis by simp
    next
      case tree: (Some t)
      from GetEntriesAndEventNr_with_tree(1,2) [OF Some tree]
        GetEntriesAndEventNr_with_tree(1,2) [OF Some' tree]
      show ?thesis by (simp add: sync_after_bind_read sync_after_bind_read_read)
    qed
  qed
  show "crashed (GetEntriesAndEventNr env file (new_process s')) =
           crashed (GetEntriesAndEventNr env file (new_process s))"
    and "reads (GetEntriesAndEventNr env file (new_process s')) =
           reads (GetEntriesAndEventNr env file (new_process s))"
    using o
    by (simp_all add: GetEntriesAndEventNr_def Let_def split: option.split)
qed

lemma GetNumbers_same_report:
  "\<exists>L. \<forall>s'. rootfiles s' = rootfiles (s :: state) \<longrightarrow>
     textfiles (GetNumbers env file (new_process s')) ''numbers.txt'' =
       Some ((case textfiles s' ''numbers.txt'' of None \<Rightarrow> [] | Some ls \<Rightarrow> ls) @ L)"
proof (cases "TFile_Open s (location env file)")
  case None
  have "\<forall>s' :: state. rootfiles s' = rootfiles s \<longrightarrow>
     textfiles (GetNumbers env file (new_process s')) ''numbers.txt'' =
       Some ((case textfiles s' ''numbers.txt'' of None \<Rightarrow> [] | Some ls \<Rightarrow> ls) @ [])"
  proof (intro allI impI)
    fix s' :: state assume "rootfiles s' = rootfiles s"
    with None have "TFile_Open s' (location env file) = None" by (simp add: TFile_Open_def)
    from GetNumbers_unopened(1) [OF this]
    show "textfiles (GetNumbers env file (new_process s')) ''numbers.txt'' =
       Some ((case textfiles s' ''numbers.txt'' of None \<Rightarrow> [] | Some ls \<Rightarrow> ls) @ [])"
      by simp
  qed
  then show ?thesis ..
next
  case (Some tf)
  have "\<forall>s' :: state. rootfiles s' = rootfiles s \<longrightarrow>
     textfiles (GetNumbers env file (new_process s')) ''numbers.txt'' =
       Some ((case textfiles s' ''numbers.txt'' of None \<Rightarrow> [] | Some ls \<Rightarrow> ls) @
         (case Get tf ''T'' of
            Some t \<Rightarrow>
              (''nEntries '' @ show_int (sint (Long64_to_int (fEntries t)))) #
              Scan env t ''eventnumber'' 1 0 @
              Scan env t ''eventnumber'' 1 (sint (Long64_to_int (fEntries t) - 1))
          | None \<Rightarrow>
              ['' ***** T is null, dummy values'', ''dummyEntries -1'', ''dummyFirst -1'',
               ''dummyLast -1'']))"
  proof (intro allI impI)
    fix s' :: state assume "rootfiles s' = rootfiles s"
    with Some have o: "TFile_Open s' (location env file) = Some tf" by (simp add: TFile_Open_def)
    show "textfiles (GetNumbers env file (new_process s')) ''numbers.txt'' =
       Some ((case textfiles s' ''numbers.txt'' of None \<Rightarrow> [] | Some ls \<Rightarrow> ls) @
         (case Get tf ''T'' of
            Some t \<Rightarrow>
              (''nEntries '' @ show_int (sint (Long64_to_int (fEntries t)))) #
              Scan env t ''eventnumber'' 1 0 @
              Scan env t ''eventnumber'' 1 (sint (Long64_to_int (fEntries t) - 1))
          | None \<Rightarrow>
              ['' ***** T is null, dummy values'', ''dummyEntries -1'', ''dummyFirst -1'',
               ''dummyLast -1'']))"
    proof (cases "Get tf ''T''")
      case None
      from GetNumbers_without_tree(1) [OF o None] None show ?thesis by simp
    next
      case (Some t)
      from GetNumbers_with_tree(1) [OF o Some] Some show ?thesis by simp
    qed
  qed
  then show ?thesis ..
qed

section \<open>The claims\<close>

text \<open>
  C1, as amended. For every file that opens and contains a tree \<^verbatim>\<open>T\<close> with \<open>N > 0\<close>
  entries: when the tree has the leaf \<^verbatim>\<open>eventnumber\<close> and \<open>N < 2 ^ 31\<close>, \<^verbatim>\<open>GetEntries\<close>
  prints the count \<open>N\<close>, the leaf's value at entry 0 and its value at entry \<open>N - 1\<close>; when
  the tree has the branch \<^verbatim>\<open>DST#Sync\<close>, \<^verbatim>\<open>GetEntriesAndEventNr\<close> prints the count \<open>N\<close>
  and the event numbers of the sync objects of entry 0 and of entry \<open>N - 1\<close>. Neither run
  dies.
\<close>

theorem count_first_last_reported:
  assumes "TFile_Open s (location env file) = Some tf"
    and "Get tf ''T'' = Some t"
    and "0 < sint (fEntries t)"
  shows "(GetLeaf t ''eventnumber'' = Some l \<and> sint (fEntries t) < 2 ^ 31 \<longrightarrow>
           console (GetEntries env file (new_process s)) = console s @
             [''Getting events for '' @ file,
              ''Number of Entries: '' @ show_int (sint (fEntries t)),
              ''First event number: '' @ show_int (sint (l 0)),
              ''Last event number: '' @ show_int (sint (l (sint (fEntries t) - 1)))] \<and>
           \<not> crashed (GetEntries env file (new_process s))) \<and>
         (branches t ''DST#Sync'' = Some objs \<longrightarrow>
           console (GetEntriesAndEventNr env file (new_process s)) = console s @
             [''Getting events for '' @ file,
              ''Number of Entries: '' @ show_int (sint (fEntries t)),
              ''First event number: '' @ show_int (sint (EventNumber (objs 0))),
              ''Last event number: '' @
                show_int (sint (EventNumber (objs (sint (fEntries t) - 1))))] \<and>
           \<not> crashed (GetEntriesAndEventNr env file (new_process s)))"
proof (intro conjI impI)
  assume a: "GetLeaf t ''eventnumber'' = Some l \<and> sint (fEntries t) < 2 ^ 31"
  with assms have w: "wrap32 (sint (fEntries t)) = sint (fEntries t)"
    "wrap32 (sint (fEntries t) - 1) = sint (fEntries t) - 1"
    by (simp_all add: wrap32_id)
  from a assms w show "console (GetEntries env file (new_process s)) = console s @
             [''Getting events for '' @ file,
              ''Number of Entries: '' @ show_int (sint (fEntries t)),
              ''First event number: '' @ show_int (sint (l 0)),
              ''Last event number: '' @ show_int (sint (l (sint (fEntries t) - 1)))]"
    by (simp add: GetEntries_def call_defs sint_Long64_to_int sint_Long64_to_int_minus1)
  from a assms w show "\<not> crashed (GetEntries env file (new_process s))"
    by (simp add: GetEntries_def call_defs sint_Long64_to_int sint_Long64_to_int_minus1)
next
  assume b: "branches t ''DST#Sync'' = Some objs"
  from assms have m: "sint (fEntries t - 1) = sint (fEntries t) - 1"
    by (simp add: sint_minus1_64)
  from b assms m show "console (GetEntriesAndEventNr env file (new_process s)) = console s @
             [''Getting events for '' @ file,
              ''Number of Entries: '' @ show_int (sint (fEntries t)),
              ''First event number: '' @ show_int (sint (EventNumber (objs 0))),
              ''Last event number: '' @
                show_int (sint (EventNumber (objs (sint (fEntries t) - 1))))]"
    by (simp add: GetEntriesAndEventNr_def call_defs)
  from b assms m show "\<not> crashed (GetEntriesAndEventNr env file (new_process s))"
    by (simp add: GetEntriesAndEventNr_def call_defs)
qed

text \<open>
  The example of the specification: three entries with event numbers 101, 102, 103 give
  the report 3, 101, 103 in both macros.
\<close>

theorem count_first_last_reported_witness:
  "TFile_Open (disk (file_of (tree_of 3))) (location plain_env ''dst.root'') =
     Some (file_of (tree_of 3)) \<and>
   Get (file_of (tree_of 3)) ''T'' = Some (tree_of 3) \<and>
   0 < sint (fEntries (tree_of 3)) \<and>
   GetLeaf (tree_of 3) ''eventnumber'' = Some ids \<and> sint (fEntries (tree_of 3)) < 2 ^ 31 \<and>
   branches (tree_of 3) ''DST#Sync'' = Some syncs \<and>
   console (GetEntries plain_env ''dst.root'' (new_process (disk (file_of (tree_of 3))))) =
     [''Getting events for dst.root'', ''Number of Entries: 3'',
      ''First event number: 101'', ''Last event number: 103''] \<and>
   console (GetEntriesAndEventNr plain_env ''dst.root''
       (new_process (disk (file_of (tree_of 3))))) =
     [''Getting events for dst.root'', ''Number of Entries: 3'',
      ''First event number: 101'', ''Last event number: 103'']"
proof -
  have h1: "TFile_Open (disk (file_of (tree_of 3))) (location plain_env ''dst.root'') =
      Some (file_of (tree_of 3))"
    by (simp add: TFile_Open_def example_defs)
  have h2: "Get (file_of (tree_of 3)) ''T'' = Some (tree_of 3)"
    by (simp add: Get_def example_defs)
  have h3: "0 < sint (fEntries (tree_of 3))"
    by (simp add: example_defs)
  have h4: "GetLeaf (tree_of 3) ''eventnumber'' = Some ids \<and>
      sint (fEntries (tree_of 3)) < 2 ^ 31"
    by (simp add: GetLeaf_def tree_of_def)
  have h5: "branches (tree_of 3) ''DST#Sync'' = Some syncs"
    by (simp add: tree_of_def)
  have v: "show_int (sint (fEntries (tree_of 3))) = ''3''"
    "show_int (sint (ids 0)) = ''101''"
    "show_int (sint (ids (sint (fEntries (tree_of 3)) - 1))) = ''103''"
    "show_int (sint (EventNumber (syncs 0))) = ''101''"
    "show_int (sint (EventNumber (syncs (sint (fEntries (tree_of 3)) - 1)))) = ''103''"
    "console (disk (file_of (tree_of 3))) = []"
    by (simp_all add: example_defs print_defs EventNumber_def)
  from count_first_last_reported [OF h1 h2 h3, of ids syncs] h1 h2 h3 h4 h5
  show ?thesis by (simp only: v) simp
qed

text \<open>
  C1 as stated fails in \<^verbatim>\<open>GetEntries\<close> once the count does not fit an \<^verbatim>\<open>int\<close>: a tree
  with \<open>2 ^ 32 + 3\<close> entries, whose entry 0 has event number 101 and whose last entry
  has event number 4294967399, is reported with count 3 and last event number 103.
\<close>

theorem count_first_last_counterexample:
  "TFile_Open (disk (file_of (tree_of 4294967299))) (location plain_env ''dst.root'') =
     Some (file_of (tree_of 4294967299)) \<and>
   Get (file_of (tree_of 4294967299)) ''T'' = Some (tree_of 4294967299) \<and>
   sint (fEntries (tree_of 4294967299)) = 4294967299 \<and>
   GetLeaf (tree_of 4294967299) ''eventnumber'' = Some ids \<and>
   sint (ids 0) = 101 \<and> sint (ids (4294967299 - 1)) = 4294967399 \<and>
   console (GetEntries plain_env ''dst.root''
       (new_process (disk (file_of (tree_of 4294967299))))) =
     [''Getting events for dst.root'', ''Number of Entries: 3'',
      ''First event number: 101'', ''Last event number: 103''] \<and>
   console (GetEntries plain_env ''dst.root''
       (new_process (disk (file_of (tree_of 4294967299))))) \<noteq>
     [''Getting events for dst.root'', ''Number of Entries: 4294967299'',
      ''First event number: 101'', ''Last event number: 4294967399'']"
  by (simp add: GetEntries_def call_defs example_defs print_defs Long64_to_int_def)

text \<open>
  C2, evaluated where the code departs from it. On a file that opens and has no tree
  \<^verbatim>\<open>T\<close>, \<^verbatim>\<open>GetEntries\<close> prints the first two lines and then calls \<^verbatim>\<open>GetLeaf\<close> through
  the null pointer: the process dies before the event numbers are printed.
  \<^verbatim>\<open>GetEntriesAndEventNr\<close>, which tests \<^verbatim>\<open>T\<close> first, prints the complete report
  \<open>-2, -1, -1\<close>.
\<close>

theorem GetEntries_without_T_dies:
  "TFile_Open (disk file_without_T) (location plain_env ''dst.root'') = Some file_without_T \<and>
   Get file_without_T ''T'' = None \<and>
   console (GetEntries plain_env ''dst.root'' (new_process (disk file_without_T))) =
     [''Getting events for dst.root'', ''Number of Entries: -1''] \<and>
   crashed (GetEntries plain_env ''dst.root'' (new_process (disk file_without_T))) \<and>
   console (GetEntriesAndEventNr plain_env ''dst.root'' (new_process (disk file_without_T))) =
     [''Getting events for dst.root'', ''Number of Entries: -2'',
      ''First event number: -1'', ''Last event number: -1''] \<and>
   \<not> crashed (GetEntriesAndEventNr plain_env ''dst.root''
         (new_process (disk file_without_T)))"
  by (simp add: GetEntries_def GetEntriesAndEventNr_def call_defs example_defs print_defs)

text \<open>
  C3, evaluated where the code departs from it. On a tree \<^verbatim>\<open>T\<close> with 0 entries that has
  the leaf and the branch, \<^verbatim>\<open>GetEntries\<close> and \<^verbatim>\<open>GetEntriesAndEventNr\<close> call
  \<^verbatim>\<open>GetEntry(0)\<close> and then \<^verbatim>\<open>GetEntry(-1)\<close>, and \<^verbatim>\<open>GetNumbers\<close> scans from entry \<open>-1\<close>.
  The event numbers printed are not the sentinel either: \<^verbatim>\<open>GetEntries\<close> prints what the
  leaf holds before any entry is loaded, and \<^verbatim>\<open>GetEntriesAndEventNr\<close> prints the content
  of the object when \<^verbatim>\<open>SetBranchAddress\<close> has allocated one.
\<close>

theorem empty_tree_reads_entry_minus_one:
  "sint (fEntries (tree_of 0)) = 0 \<and>
   reads (GetEntries plain_env ''dst.root'' (new_process (disk (file_of (tree_of 0))))) =
     [0, - 1] \<and>
   console (GetEntries plain_env ''dst.root'' (new_process (disk (file_of (tree_of 0))))) =
     [''Getting events for dst.root'', ''Number of Entries: 0'',
      ''First event number: 0'', ''Last event number: 0''] \<and>
   reads (GetEntriesAndEventNr plain_env ''dst.root''
       (new_process (disk (file_of (tree_of 0))))) = [0, - 1] \<and>
   console (GetEntriesAndEventNr eager_env ''dst.root''
       (new_process (disk (file_of (tree_of 0))))) =
     [''Getting events for dst.root'', ''Number of Entries: 0'',
      ''First event number: 0'', ''Last event number: 0''] \<and>
   textfiles (GetNumbers plain_env ''dst.root'' (new_process (disk (file_of (tree_of 0)))))
       ''numbers.txt'' =
     Some (''nEntries 0'' # Scan plain_env (tree_of 0) ''eventnumber'' 1 0 @
             Scan plain_env (tree_of 0) ''eventnumber'' 1 (- 1))"
  by (simp add: GetEntries_def GetEntriesAndEventNr_def GetNumbers_def call_defs example_defs
      print_defs Long64_to_int_def)

text \<open>
  C4, as amended. For every file that opens and contains a tree \<^verbatim>\<open>T\<close> with \<open>N\<close> entries:
  when the leaf \<^verbatim>\<open>eventnumber\<close> is absent and \<open>0 \<le> N < 2 ^ 31\<close>, \<^verbatim>\<open>GetEntries\<close> reports
  \<open>N, -1, -1\<close>; when the \<^verbatim>\<open>sync\<close> pointer of \<^verbatim>\<open>GetEntriesAndEventNr\<close> is null after
  binding and reading, that macro reports \<open>N, -1, -1\<close>.
\<close>

theorem missing_identifier_reports_sentinels:
  assumes "TFile_Open s (location env file) = Some tf"
    and "Get tf ''T'' = Some t"
  shows "(GetLeaf t ''eventnumber'' = None \<and> 0 \<le> sint (fEntries t) \<and> sint (fEntries t) < 2 ^ 31 \<longrightarrow>
           console (GetEntries env file (new_process s)) = console s @
             [''Getting events for '' @ file,
              ''Number of Entries: '' @ show_int (sint (fEntries t)),
              ''First event number: -1'', ''Last event number: -1''] \<and>
           \<not> crashed (GetEntries env file (new_process s))) \<and>
         (sync (GetEntriesAndEventNr env file (new_process s)) = None \<longrightarrow>
           console (GetEntriesAndEventNr env file (new_process s)) = console s @
             [''Getting events for '' @ file,
              ''Number of Entries: '' @ show_int (sint (fEntries t)),
              ''First event number: -1'', ''Last event number: -1''] \<and>
           \<not> crashed (GetEntriesAndEventNr env file (new_process s)))"
proof (intro conjI impI)
  assume a: "GetLeaf t ''eventnumber'' = None \<and> 0 \<le> sint (fEntries t) \<and> sint (fEntries t) < 2 ^ 31"
  then have w: "wrap32 (sint (fEntries t)) = sint (fEntries t)"
    by (simp add: wrap32_id)
  from a have leaf: "GetLeaf t ''eventnumber'' = None" by simp
  from GetEntries_without_leaf(1) [OF assms leaf] w
  show "console (GetEntries env file (new_process s)) = console s @
             [''Getting events for '' @ file,
              ''Number of Entries: '' @ show_int (sint (fEntries t)),
              ''First event number: -1'', ''Last event number: -1'']"
    by simp
  from GetEntries_without_leaf(3) [OF assms leaf]
  show "\<not> crashed (GetEntries env file (new_process s))" .
next
  assume b: "sync (GetEntriesAndEventNr env file (new_process s)) = None"
  with GetEntriesAndEventNr_with_tree(2) [OF assms]
  have "sync (GetEntry t (sint (fEntries t - 1))
        (GetEntry t 0 (SetBranchAddress env t ''DST#Sync'' (new_process s)))) = None"
    by simp
  then have "sync (GetEntry t 0 (SetBranchAddress env t ''DST#Sync'' (new_process s))) = None"
    by (rule sync_GetEntry_mono)
  with b GetEntriesAndEventNr_with_tree(1) [OF assms]
  show "console (GetEntriesAndEventNr env file (new_process s)) = console s @
             [''Getting events for '' @ file,
              ''Number of Entries: '' @ show_int (sint (fEntries t)),
              ''First event number: -1'', ''Last event number: -1'']"
    by (simp add: show_int_sentinels)
  from GetEntriesAndEventNr_with_tree(4) [OF assms]
  show "\<not> crashed (GetEntriesAndEventNr env file (new_process s))" .
qed


theorem missing_identifier_reports_sentinels_witness:
  "TFile_Open (disk (file_of (bare_tree_of 3))) (location plain_env ''dst.root'') =
     Some (file_of (bare_tree_of 3)) \<and>
   Get (file_of (bare_tree_of 3)) ''T'' = Some (bare_tree_of 3) \<and>
   GetLeaf (bare_tree_of 3) ''eventnumber'' = None \<and>
   0 \<le> sint (fEntries (bare_tree_of 3)) \<and> sint (fEntries (bare_tree_of 3)) < 2 ^ 31 \<and>
   sync (GetEntriesAndEventNr plain_env ''dst.root''
       (new_process (disk (file_of (bare_tree_of 3))))) = None \<and>
   console (GetEntries plain_env ''dst.root''
       (new_process (disk (file_of (bare_tree_of 3))))) =
     [''Getting events for dst.root'', ''Number of Entries: 3'',
      ''First event number: -1'', ''Last event number: -1''] \<and>
   console (GetEntriesAndEventNr plain_env ''dst.root''
       (new_process (disk (file_of (bare_tree_of 3))))) =
     [''Getting events for dst.root'', ''Number of Entries: 3'',
      ''First event number: -1'', ''Last event number: -1'']"
proof -
  have h1: "TFile_Open (disk (file_of (bare_tree_of 3))) (location plain_env ''dst.root'') =
      Some (file_of (bare_tree_of 3))"
    by (simp add: TFile_Open_def example_defs)
  have h2: "Get (file_of (bare_tree_of 3)) ''T'' = Some (bare_tree_of 3)"
    by (simp add: Get_def example_defs)
  have h3: "GetLeaf (bare_tree_of 3) ''eventnumber'' = None \<and>
      0 \<le> sint (fEntries (bare_tree_of 3)) \<and> sint (fEntries (bare_tree_of 3)) < 2 ^ 31"
    by (simp add: GetLeaf_def bare_tree_of_def)
  have "branches (bare_tree_of 3) ''DST#Sync'' = None"
    by (simp add: bare_tree_of_def)
  with GetEntriesAndEventNr_with_tree(2) [OF h1 h2]
  have h4: "sync (GetEntriesAndEventNr plain_env ''dst.root''
       (new_process (disk (file_of (bare_tree_of 3))))) = None"
    by (simp add: SetBranchAddress_missing sync_GetEntry_unbound)
  have v: "show_int (sint (fEntries (bare_tree_of 3))) = ''3''"
    "console (disk (file_of (bare_tree_of 3))) = []"
    by (simp_all add: example_defs print_defs)
  from missing_identifier_reports_sentinels [OF h1 h2] h1 h2 h3 h4
  show ?thesis by (simp only: v) simp
qed

text \<open>
  C4 as stated fails in \<^verbatim>\<open>GetEntries\<close> once the count does not fit an \<^verbatim>\<open>int\<close>: a tree
  with \<open>2 ^ 32\<close> entries and no leaf \<^verbatim>\<open>eventnumber\<close> is reported with count 0.
\<close>

theorem missing_identifier_counterexample:
  "TFile_Open (disk (file_of (bare_tree_of 4294967296))) (location plain_env ''dst.root'') =
     Some (file_of (bare_tree_of 4294967296)) \<and>
   Get (file_of (bare_tree_of 4294967296)) ''T'' = Some (bare_tree_of 4294967296) \<and>
   sint (fEntries (bare_tree_of 4294967296)) = 4294967296 \<and>
   GetLeaf (bare_tree_of 4294967296) ''eventnumber'' = None \<and>
   console (GetEntries plain_env ''dst.root''
       (new_process (disk (file_of (bare_tree_of 4294967296))))) =
     [''Getting events for dst.root'', ''Number of Entries: 0'',
      ''First event number: -1'', ''Last event number: -1''] \<and>
   console (GetEntries plain_env ''dst.root''
       (new_process (disk (file_of (bare_tree_of 4294967296))))) \<noteq>
     [''Getting events for dst.root'', ''Number of Entries: 4294967296'',
      ''First event number: -1'', ''Last event number: -1'']"
  by (simp add: GetEntries_def call_defs example_defs print_defs Long64_to_int_def)

text \<open>
  C5, as amended. For every input file that opens, \<^verbatim>\<open>GetEntriesAndEventNr\<close> prints
  exactly the four lines \<^verbatim>\<open>Getting events for <file>\<close>, \<^verbatim>\<open>Number of Entries: <n>\<close>,
  \<^verbatim>\<open>First event number: <f>\<close>, \<^verbatim>\<open>Last event number: <l>\<close>, in that order, and
  returns; \<^verbatim>\<open>GetEntries\<close> does so for every input file that opens and contains the tree
  \<^verbatim>\<open>T\<close>.
\<close>

theorem console_report_lines:
  assumes "TFile_Open s (location env file) = Some tf"
  shows "(\<exists>n f l. console (GetEntriesAndEventNr env file (new_process s)) = console s @
            [''Getting events for '' @ file, ''Number of Entries: '' @ show_int n,
             ''First event number: '' @ show_int f, ''Last event number: '' @ show_int l]) \<and>
         \<not> crashed (GetEntriesAndEventNr env file (new_process s)) \<and>
         (Get tf ''T'' = Some t \<longrightarrow>
           (\<exists>n f l. console (GetEntries env file (new_process s)) = console s @
              [''Getting events for '' @ file, ''Number of Entries: '' @ show_int n,
               ''First event number: '' @ show_int f, ''Last event number: '' @ show_int l]) \<and>
           \<not> crashed (GetEntries env file (new_process s)))"
proof (intro conjI impI)
  show "\<exists>n f l. console (GetEntriesAndEventNr env file (new_process s)) = console s @
            [''Getting events for '' @ file, ''Number of Entries: '' @ show_int n,
             ''First event number: '' @ show_int f, ''Last event number: '' @ show_int l]"
  proof (cases "Get tf ''T''")
    case None
    from GetEntriesAndEventNr_without_tree(1) [OF assms None]
    have "console (GetEntriesAndEventNr env file (new_process s)) = console s @
            [''Getting events for '' @ file, ''Number of Entries: '' @ show_int (- 2),
             ''First event number: '' @ show_int (- 1), ''Last event number: '' @ show_int (- 1)]"
      by (simp add: show_int_sentinels)
    then show ?thesis by blast
  next
    case (Some t')
    from GetEntriesAndEventNr_with_tree(1) [OF assms Some] show ?thesis by blast
  qed
  show "\<not> crashed (GetEntriesAndEventNr env file (new_process s))"
  proof (cases "Get tf ''T''")
    case None
    from GetEntriesAndEventNr_without_tree(3) [OF assms None] show ?thesis .
  next
    case (Some t')
    from GetEntriesAndEventNr_with_tree(4) [OF assms Some] show ?thesis .
  qed
next
  assume tree: "Get tf ''T'' = Some t"
  show "\<exists>n f l. console (GetEntries env file (new_process s)) = console s @
              [''Getting events for '' @ file, ''Number of Entries: '' @ show_int n,
               ''First event number: '' @ show_int f, ''Last event number: '' @ show_int l]"
  proof (cases "GetLeaf t ''eventnumber''")
    case None
    from GetEntries_without_leaf(1) [OF assms tree None]
    have "console (GetEntries env file (new_process s)) = console s @
      [''Getting events for '' @ file,
       ''Number of Entries: '' @ show_int (wrap32 (sint (fEntries t))),
       ''First event number: '' @ show_int (- 1), ''Last event number: '' @ show_int (- 1)]"
      by (simp add: show_int_sentinels)
    then show ?thesis by blast
  next
    case (Some l)
    from GetEntries_with_leaf(1) [OF assms tree Some] show ?thesis by blast
  qed
  show "\<not> crashed (GetEntries env file (new_process s))"
  proof (cases "GetLeaf t ''eventnumber''")
    case None
    from GetEntries_without_leaf(3) [OF assms tree None] show ?thesis .
  next
    case (Some l)
    from GetEntries_with_leaf(4) [OF assms tree Some] show ?thesis .
  qed
qed

theorem console_report_lines_witness:
  "TFile_Open (disk (file_of (tree_of 3))) (location plain_env ''dst.root'') =
     Some (file_of (tree_of 3)) \<and>
   Get (file_of (tree_of 3)) ''T'' = Some (tree_of 3) \<and>
   (\<exists>n f l. console (GetEntriesAndEventNr plain_env ''dst.root''
        (new_process (disk (file_of (tree_of 3))))) =
      [''Getting events for dst.root'', ''Number of Entries: '' @ show_int n,
       ''First event number: '' @ show_int f, ''Last event number: '' @ show_int l]) \<and>
   (\<exists>n f l. console (GetEntries plain_env ''dst.root''
        (new_process (disk (file_of (tree_of 3))))) =
      [''Getting events for dst.root'', ''Number of Entries: '' @ show_int n,
       ''First event number: '' @ show_int f, ''Last event number: '' @ show_int l])"
proof -
  have h1: "TFile_Open (disk (file_of (tree_of 3))) (location plain_env ''dst.root'') =
      Some (file_of (tree_of 3))"
    by (simp add: TFile_Open_def example_defs)
  have h2: "Get (file_of (tree_of 3)) ''T'' = Some (tree_of 3)"
    by (simp add: Get_def example_defs)
  have v: "console (disk (file_of (tree_of 3))) = []"
    by (simp add: disk_def)
  from console_report_lines [OF h1, of "tree_of 3"] h1 h2
  show ?thesis by (simp add: v)
qed

text \<open>
  C5 as stated fails on an input file that cannot be opened: both macros print the first
  line and die on the null file pointer.
\<close>

theorem console_report_counterexample:
  "TFile_Open (disk file_without_T) (location plain_env ''missing.root'') = None \<and>
   console (GetEntries plain_env ''missing.root'' (new_process (disk file_without_T))) =
     [''Getting events for missing.root''] \<and>
   crashed (GetEntries plain_env ''missing.root'' (new_process (disk file_without_T))) \<and>
   console (GetEntriesAndEventNr plain_env ''missing.root'' (new_process (disk file_without_T))) =
     [''Getting events for missing.root''] \<and>
   crashed (GetEntriesAndEventNr plain_env ''missing.root'' (new_process (disk file_without_T)))"
  by (simp add: GetEntries_def GetEntriesAndEventNr_def call_defs example_defs)

text \<open>
  C6, as amended. For every input file that opens, \<^verbatim>\<open>GetNumbers\<close> appends to
  \<^verbatim>\<open>numbers.txt\<close>, and writes nowhere else: with the tree, the line \<^verbatim>\<open>nEntries <n>\<close>
  (\<open>n\<close> the count as an \<^verbatim>\<open>int\<close>) followed by the output of the scan of \<^verbatim>\<open>eventnumber\<close>
  for one entry from entry 0 and of the scan from entry \<open>n - 1\<close>; without the tree, the
  line \<^verbatim>\<open> ***** T is null, dummy values\<close> followed by \<^verbatim>\<open>dummyEntries -1\<close>,
  \<^verbatim>\<open>dummyFirst -1\<close>, \<^verbatim>\<open>dummyLast -1\<close>.
\<close>

theorem numbers_file_content:
  assumes "TFile_Open s (location env file) = Some tf"
  shows "textfiles (GetNumbers env file (new_process s)) = (textfiles s)(''numbers.txt'' \<mapsto>
      (case textfiles s ''numbers.txt'' of None \<Rightarrow> [] | Some ls \<Rightarrow> ls) @
      (case Get tf ''T'' of
         Some t \<Rightarrow>
           (''nEntries '' @ show_int (sint (Long64_to_int (fEntries t)))) #
           Scan env t ''eventnumber'' 1 0 @
           Scan env t ''eventnumber'' 1 (sint (Long64_to_int (fEntries t) - 1))
       | None \<Rightarrow>
           ['' ***** T is null, dummy values'', ''dummyEntries -1'', ''dummyFirst -1'',
            ''dummyLast -1''])) \<and>
    console (GetNumbers env file (new_process s)) = console s \<and>
    \<not> crashed (GetNumbers env file (new_process s))"
proof (cases "Get tf ''T''")
  case None
  from GetNumbers_without_tree [OF assms None] None show ?thesis by simp
next
  case (Some t)
  from GetNumbers_with_tree [OF assms Some] Some show ?thesis by simp
qed

theorem numbers_file_content_witness:
  "TFile_Open (disk (file_of (tree_of 3))) (location plain_env ''dst.root'') =
     Some (file_of (tree_of 3)) \<and>
   textfiles (GetNumbers plain_env ''dst.root'' (new_process (disk (file_of (tree_of 3)))))
       ''numbers.txt'' = Some [''nEntries 3'', ''0 101'', ''2 103''] \<and>
   console (GetNumbers plain_env ''dst.root'' (new_process (disk (file_of (tree_of 3))))) = []"
proof -
  have h1: "TFile_Open (disk (file_of (tree_of 3))) (location plain_env ''dst.root'') =
      Some (file_of (tree_of 3))"
    by (simp add: TFile_Open_def example_defs)
  have v: "Get (file_of (tree_of 3)) ''T'' = Some (tree_of 3)"
    "textfiles (disk (file_of (tree_of 3))) ''numbers.txt'' = None"
    "console (disk (file_of (tree_of 3))) = []"
    "show_int (sint (Long64_to_int (fEntries (tree_of 3)))) = ''3''"
    "Scan plain_env (tree_of 3) ''eventnumber'' 1 0 = [''0 101'']"
    "Scan plain_env (tree_of 3) ''eventnumber'' 1
       (sint (Long64_to_int (fEntries (tree_of 3)) - 1)) = [''2 103'']"
    by (simp_all add: Get_def example_defs print_defs Long64_to_int_def)
  from numbers_file_content [OF h1] h1 show ?thesis by (simp add: v)
qed

text \<open>
  C6 as stated fails on a file without the tree: the file receives four lines, the first
  of which the claim does not list.
\<close>

theorem numbers_file_counterexample:
  "TFile_Open (disk file_without_T) (location plain_env ''dst.root'') = Some file_without_T \<and>
   Get file_without_T ''T'' = None \<and>
   textfiles (GetNumbers plain_env ''dst.root'' (new_process (disk file_without_T)))
       ''numbers.txt'' =
     Some ['' ***** T is null, dummy values'', ''dummyEntries -1'', ''dummyFirst -1'',
           ''dummyLast -1''] \<and>
   textfiles (GetNumbers plain_env ''dst.root'' (new_process (disk file_without_T)))
       ''numbers.txt'' \<noteq>
     Some [''dummyEntries -1'', ''dummyFirst -1'', ''dummyLast -1'']"
  by (simp add: GetNumbers_def call_defs example_defs print_defs)

text \<open>
  C7. Running a macro a second time, as a new process on the disk and terminal the first
  run left, gives the report of the first run again: the console macros print the same
  lines, die or return alike and ask for the same entries; \<^verbatim>\<open>GetNumbers\<close> appends to
  \<^verbatim>\<open>numbers.txt\<close> the lines it appended the first time.
\<close>

theorem second_run_same_report:
  "(\<exists>L. console (GetEntries env file (new_process s)) = console s @ L \<and>
        console (GetEntries env file (new_process (GetEntries env file (new_process s)))) =
          console s @ L @ L) \<and>
   crashed (GetEntries env file (new_process (GetEntries env file (new_process s)))) =
     crashed (GetEntries env file (new_process s)) \<and>
   reads (GetEntries env file (new_process (GetEntries env file (new_process s)))) =
     reads (GetEntries env file (new_process s)) \<and>
   (\<exists>L. console (GetEntriesAndEventNr env file (new_process s)) = console s @ L \<and>
        console (GetEntriesAndEventNr env file
            (new_process (GetEntriesAndEventNr env file (new_process s)))) =
          console s @ L @ L) \<and>
   crashed (GetEntriesAndEventNr env file
       (new_process (GetEntriesAndEventNr env file (new_process s)))) =
     crashed (GetEntriesAndEventNr env file (new_process s)) \<and>
   reads (GetEntriesAndEventNr env file
       (new_process (GetEntriesAndEventNr env file (new_process s)))) =
     reads (GetEntriesAndEventNr env file (new_process s)) \<and>
   (\<exists>L. textfiles (GetNumbers env file (new_process s)) ''numbers.txt'' =
          Some ((case textfiles s ''numbers.txt'' of None \<Rightarrow> [] | Some ls \<Rightarrow> ls) @ L) \<and>
        textfiles (GetNumbers env file (new_process (GetNumbers env file (new_process s))))
            ''numbers.txt'' =
          Some ((case textfiles s ''numbers.txt'' of None \<Rightarrow> [] | Some ls \<Rightarrow> ls) @ L @ L))"
proof (intro conjI)
  let ?s1 = "GetEntries env file (new_process s)"
  have r: "rootfiles ?s1 = rootfiles s" by (simp add: rootfiles_GetEntries)
  from GetEntries_same_report(1) [OF r] obtain L
    where "console ?s1 = console s @ L"
      and "console (GetEntries env file (new_process ?s1)) = console ?s1 @ L"
    by blast
  then have "console ?s1 = console s @ L \<and>
      console (GetEntries env file (new_process ?s1)) = console s @ L @ L"
    by simp
  then show "\<exists>L. console ?s1 = console s @ L \<and>
      console (GetEntries env file (new_process ?s1)) = console s @ L @ L" ..
  from GetEntries_same_report(2) [OF r]
  show "crashed (GetEntries env file (new_process ?s1)) = crashed ?s1" .
  from GetEntries_same_report(3) [OF r]
  show "reads (GetEntries env file (new_process ?s1)) = reads ?s1" .
next
  let ?s1 = "GetEntriesAndEventNr env file (new_process s)"
  have r: "rootfiles ?s1 = rootfiles s" by (simp add: rootfiles_GetEntriesAndEventNr)
  from GetEntriesAndEventNr_same_report(1) [OF r] obtain L
    where "console ?s1 = console s @ L"
      and "console (GetEntriesAndEventNr env file (new_process ?s1)) = console ?s1 @ L"
    by blast
  then have "console ?s1 = console s @ L \<and>
      console (GetEntriesAndEventNr env file (new_process ?s1)) = console s @ L @ L"
    by simp
  then show "\<exists>L. console ?s1 = console s @ L \<and>
      console (GetEntriesAndEventNr env file (new_process ?s1)) = console s @ L @ L" ..
  from GetEntriesAndEventNr_same_report(2) [OF r]
  show "crashed (GetEntriesAndEventNr env file (new_process ?s1)) = crashed ?s1" .
  from GetEntriesAndEventNr_same_report(3) [OF r]
  show "reads (GetEntriesAndEventNr env file (new_process ?s1)) = reads ?s1" .
next
  let ?s1 = "GetNumbers env file (new_process s)"
  let ?old = "case textfiles s ''numbers.txt'' of None \<Rightarrow> [] | Some ls \<Rightarrow> ls"
  have r: "rootfiles ?s1 = rootfiles s" by (simp add: rootfiles_GetNumbers)
  from GetNumbers_same_report obtain L
    where L: "\<And>s'. rootfiles s' = rootfiles s \<Longrightarrow>
      textfiles (GetNumbers env file (new_process s')) ''numbers.txt'' =
        Some ((case textfiles s' ''numbers.txt'' of None \<Rightarrow> [] | Some ls \<Rightarrow> ls) @ L)"
    by blast
  from L [of s] have one: "textfiles ?s1 ''numbers.txt'' = Some (?old @ L)" by simp
  from L [OF r] one
  have "textfiles (GetNumbers env file (new_process ?s1)) ''numbers.txt'' =
      Some (?old @ L @ L)"
    by simp
  with one show "\<exists>L. textfiles ?s1 ''numbers.txt'' = Some (?old @ L) \<and>
      textfiles (GetNumbers env file (new_process ?s1)) ''numbers.txt'' =
        Some (?old @ L @ L)"
    by blast
qed

text \<open>
  C8. Every run is read-only with respect to its input: whatever the starting state, the
  file name and the outcome (also when the process dies), the ROOT files on disk, with
  their trees and entries, are after the run what they were before it, in each of the
  three macros.
\<close>

theorem input_files_unchanged:
  "rootfiles (GetEntries env file s) = rootfiles s \<and>
   rootfiles (GetEntriesAndEventNr env file s) = rootfiles s \<and>
   rootfiles (GetNumbers env file s) = rootfiles s"
  by (simp only: rootfiles_GetEntries rootfiles_GetEntriesAndEventNr rootfiles_GetNumbers)

text \<open>
  C9. On a file that opens and holds the tree \<^verbatim>\<open>T\<close>, the two event numbers are assigned
  together or not at all. \<^verbatim>\<open>GetEntries\<close>: either the leaf is absent, no entry is read
  and both lines show the sentinel, or the leaf is present, both reads are made and the
  lines show the leaf's value after the first and after the second read.
  \<^verbatim>\<open>GetEntriesAndEventNr\<close>: the \<^verbatim>\<open>sync\<close> pointer is null at both tests and both lines
  show the sentinel, or it is non-null at both tests and the lines show the event numbers
  of the objects it points to.
\<close>

theorem identifiers_assigned_together:
  assumes "TFile_Open s (location env file) = Some tf"
    and "Get tf ''T'' = Some t"
  shows "((GetLeaf t ''eventnumber'' = None \<and>
           reads (GetEntries env file (new_process s)) = [] \<and>
           console (GetEntries env file (new_process s)) = console s @
             [''Getting events for '' @ file,
              ''Number of Entries: '' @ show_int (wrap32 (sint (fEntries t))),
              ''First event number: -1'', ''Last event number: -1'']) \<or>
          (\<exists>l. GetLeaf t ''eventnumber'' = Some l \<and>
           reads (GetEntries env file (new_process s)) = [0, wrap32 (sint (fEntries t) - 1)] \<and>
           console (GetEntries env file (new_process s)) = console s @
             [''Getting events for '' @ file,
              ''Number of Entries: '' @ show_int (wrap32 (sint (fEntries t))),
              ''First event number: '' @
                 show_int (sint (GetValueLong64 env l (GetEntry t 0 (new_process s)))),
              ''Last event number: '' @
                 show_int (sint (GetValueLong64 env l (GetEntries env file (new_process s))))])) \<and>
         ((sync (GetEntry t 0 (SetBranchAddress env t ''DST#Sync'' (new_process s))) = None \<and>
           sync (GetEntriesAndEventNr env file (new_process s)) = None \<and>
           console (GetEntriesAndEventNr env file (new_process s)) = console s @
             [''Getting events for '' @ file,
              ''Number of Entries: '' @ show_int (sint (fEntries t)),
              ''First event number: -1'', ''Last event number: -1'']) \<or>
          (\<exists>so1 so2.
           sync (GetEntry t 0 (SetBranchAddress env t ''DST#Sync'' (new_process s))) = Some so1 \<and>
           sync (GetEntriesAndEventNr env file (new_process s)) = Some so2 \<and>
           console (GetEntriesAndEventNr env file (new_process s)) = console s @
             [''Getting events for '' @ file,
              ''Number of Entries: '' @ show_int (sint (fEntries t)),
              ''First event number: '' @ show_int (sint (EventNumber so1)),
              ''Last event number: '' @ show_int (sint (EventNumber so2))]))"
proof (rule conjI)
  show "(GetLeaf t ''eventnumber'' = None \<and>
           reads (GetEntries env file (new_process s)) = [] \<and>
           console (GetEntries env file (new_process s)) = console s @
             [''Getting events for '' @ file,
              ''Number of Entries: '' @ show_int (wrap32 (sint (fEntries t))),
              ''First event number: -1'', ''Last event number: -1'']) \<or>
          (\<exists>l. GetLeaf t ''eventnumber'' = Some l \<and>
           reads (GetEntries env file (new_process s)) = [0, wrap32 (sint (fEntries t) - 1)] \<and>
           console (GetEntries env file (new_process s)) = console s @
             [''Getting events for '' @ file,
              ''Number of Entries: '' @ show_int (wrap32 (sint (fEntries t))),
              ''First event number: '' @
                 show_int (sint (GetValueLong64 env l (GetEntry t 0 (new_process s)))),
              ''Last event number: '' @
                 show_int (sint (GetValueLong64 env l (GetEntries env file (new_process s))))])"
  proof (cases "GetLeaf t ''eventnumber''")
    case None
    from None GetEntries_without_leaf(1,2) [OF assms None] show ?thesis by simp
  next
    case (Some l)
    from Some GetEntries_with_leaf(1,3) [OF assms Some] show ?thesis by simp
  qed
next
  let ?p1 = "sync (GetEntry t 0 (SetBranchAddress env t ''DST#Sync'' (new_process s)))"
  let ?p2 = "sync (GetEntriesAndEventNr env file (new_process s))"
  note run = GetEntriesAndEventNr_with_tree [OF assms]
  show "(?p1 = None \<and> ?p2 = None \<and>
           console (GetEntriesAndEventNr env file (new_process s)) = console s @
             [''Getting events for '' @ file,
              ''Number of Entries: '' @ show_int (sint (fEntries t)),
              ''First event number: -1'', ''Last event number: -1'']) \<or>
          (\<exists>so1 so2. ?p1 = Some so1 \<and> ?p2 = Some so2 \<and>
           console (GetEntriesAndEventNr env file (new_process s)) = console s @
             [''Getting events for '' @ file,
              ''Number of Entries: '' @ show_int (sint (fEntries t)),
              ''First event number: '' @ show_int (sint (EventNumber so1)),
              ''Last event number: '' @ show_int (sint (EventNumber so2))])"
  proof (cases ?p2)
    case None
    with run(2) have "sync (GetEntry t (sint (fEntries t - 1))
        (GetEntry t 0 (SetBranchAddress env t ''DST#Sync'' (new_process s)))) = None"
      by simp
    then have "?p1 = None" by (rule sync_GetEntry_mono)
    with None run(1) show ?thesis by (simp add: show_int_sentinels)
  next
    case (Some so2)
    have "?p1 \<noteq> None"
    proof
      assume n: "?p1 = None"
      show False
      proof (cases "branches t ''DST#Sync''")
        case None
        with run(2) Some show False
          by (simp add: SetBranchAddress_missing sync_GetEntry_unbound)
      next
        case (Some objs)
        note b = sync_GetEntry_bound [OF _ Some] SetBranchAddress_found [OF Some]
        from n have "\<not> 0 < sint (fEntries t)" and "sync_on_bind env = None"
          by (simp_all add: b split: if_splits)
        with run(2) \<open>?p2 = Some so2\<close> show False
          by (simp add: b split: if_splits)
      qed
    qed
    then obtain so1 where "?p1 = Some so1" by blast
    with Some run(1) show ?thesis by simp
  qed
qed

theorem identifiers_assigned_together_witness:
  "TFile_Open (disk (file_of (tree_of 3))) (location plain_env ''dst.root'') =
     Some (file_of (tree_of 3)) \<and>
   Get (file_of (tree_of 3)) ''T'' = Some (tree_of 3) \<and>
   GetLeaf (tree_of 3) ''eventnumber'' = Some ids \<and>
   reads (GetEntries plain_env ''dst.root'' (new_process (disk (file_of (tree_of 3))))) =
     [0, 2] \<and>
   console (GetEntries plain_env ''dst.root'' (new_process (disk (file_of (tree_of 3))))) =
     [''Getting events for dst.root'', ''Number of Entries: 3'',
      ''First event number: 101'', ''Last event number: 103''] \<and>
   sync (GetEntry (tree_of 3) 0 (SetBranchAddress plain_env (tree_of 3) ''DST#Sync''
       (new_process (disk (file_of (tree_of 3)))))) = Some (syncs 0) \<and>
   sync (GetEntriesAndEventNr plain_env ''dst.root''
       (new_process (disk (file_of (tree_of 3))))) = Some (syncs 2) \<and>
   console (GetEntriesAndEventNr plain_env ''dst.root''
       (new_process (disk (file_of (tree_of 3))))) =
     [''Getting events for dst.root'', ''Number of Entries: 3'',
      ''First event number: 101'', ''Last event number: 103'']"
proof -
  have h1: "TFile_Open (disk (file_of (tree_of 3))) (location plain_env ''dst.root'') =
      Some (file_of (tree_of 3))"
    by (simp add: TFile_Open_def example_defs)
  have h2: "Get (file_of (tree_of 3)) ''T'' = Some (tree_of 3)"
    by (simp add: Get_def example_defs)
  have leaf: "GetLeaf (tree_of 3) ''eventnumber'' = Some ids"
    by (simp add: GetLeaf_def tree_of_def)
  have br: "branches (tree_of 3) ''DST#Sync'' = Some syncs"
    by (simp add: tree_of_def)
  have n: "sint (fEntries (tree_of 3)) = 3" "sint (fEntries (tree_of 3) - 1) = 2"
    by (simp_all add: tree_of_def)
  have w: "wrap32 3 = 3" "wrap32 2 = 2"
    by (simp_all add: wrap32_def)
  have p1: "sync (GetEntry (tree_of 3) 0 (SetBranchAddress plain_env (tree_of 3) ''DST#Sync''
       (new_process (disk (file_of (tree_of 3)))))) = Some (syncs 0)"
    by (simp add: sync_after_bind_read br n)
  from GetEntriesAndEventNr_with_tree(2) [OF h1 h2]
  have p2: "sync (GetEntriesAndEventNr plain_env ''dst.root''
       (new_process (disk (file_of (tree_of 3))))) = Some (syncs 2)"
    by (simp add: sync_after_bind_read_read br n)
  have v: "show_int 3 = ''3''" "show_int (sint (ids 0)) = ''101''"
    "show_int (sint (ids 2)) = ''103''"
    "show_int (sint (EventNumber (syncs 0))) = ''101''"
    "show_int (sint (EventNumber (syncs 2))) = ''103''"
    "console (disk (file_of (tree_of 3))) = []"
    by (simp_all add: example_defs print_defs EventNumber_def)
  from GetEntries_with_leaf(2) [OF h1 h2 leaf]
  have g: "GetValueLong64 plain_env ids (GetEntry (tree_of 3) 0
        (new_process (disk (file_of (tree_of 3))))) = ids 0"
    "GetValueLong64 plain_env ids (GetEntries plain_env ''dst.root''
        (new_process (disk (file_of (tree_of 3))))) = ids 2"
    by (simp_all add: GetValueLong64_def loaded_GetEntry n w)
  from identifiers_assigned_together [OF h1 h2] h1 h2 leaf p1 p2
  show ?thesis by (simp add: n w v g)
qed

text \<open>
  C10. In \<^verbatim>\<open>GetEntries\<close> and \<^verbatim>\<open>GetNumbers\<close>, for a tree with \<open>N \<ge> 2 ^ 31\<close> entries the
  count printed is \<open>N\<close> reduced modulo \<open>2 ^ 32\<close> and read as signed, which is not \<open>N\<close>; the
  entry asked for last is the same reduction of \<open>N - 1\<close> (one less than the printed count,
  unless that count is the least \<^verbatim>\<open>int\<close>).
\<close>

theorem count_wraps_beyond_int:
  assumes "TFile_Open s (location env file) = Some tf"
    and "Get tf ''T'' = Some t"
    and "2 ^ 31 \<le> sint (fEntries t)"
  shows "wrap32 (sint (fEntries t)) \<noteq> sint (fEntries t) \<and>
         (GetLeaf t ''eventnumber'' = None \<longrightarrow>
           console (GetEntries env file (new_process s)) = console s @
             [''Getting events for '' @ file,
              ''Number of Entries: '' @ show_int (wrap32 (sint (fEntries t))),
              ''First event number: -1'', ''Last event number: -1'']) \<and>
         (GetLeaf t ''eventnumber'' = Some l \<longrightarrow>
           reads (GetEntries env file (new_process s)) = [0, wrap32 (sint (fEntries t) - 1)] \<and>
           console (GetEntries env file (new_process s)) = console s @
             [''Getting events for '' @ file,
              ''Number of Entries: '' @ show_int (wrap32 (sint (fEntries t))),
              ''First event number: '' @ show_int (sint (l 0)),
              ''Last event number: '' @
                 show_int (sint (l (max 0 (wrap32 (sint (fEntries t) - 1)))))]) \<and>
         textfiles (GetNumbers env file (new_process s)) ''numbers.txt'' =
           Some ((case textfiles s ''numbers.txt'' of None \<Rightarrow> [] | Some ls \<Rightarrow> ls) @
             (''nEntries '' @ show_int (wrap32 (sint (fEntries t)))) #
             Scan env t ''eventnumber'' 1 0 @
             Scan env t ''eventnumber'' 1 (wrap32 (sint (fEntries t) - 1))) \<and>
         (wrap32 (sint (fEntries t)) \<noteq> - (2 ^ 31) \<longrightarrow>
           wrap32 (sint (fEntries t) - 1) = wrap32 (sint (fEntries t)) - 1)"
proof (intro conjI impI)
  from assms(3) show "wrap32 (sint (fEntries t)) \<noteq> sint (fEntries t)"
    by (rule wrap32_neq)
next
  assume "GetLeaf t ''eventnumber'' = None"
  from GetEntries_without_leaf(1) [OF assms(1,2) this]
  show "console (GetEntries env file (new_process s)) = console s @
             [''Getting events for '' @ file,
              ''Number of Entries: '' @ show_int (wrap32 (sint (fEntries t))),
              ''First event number: -1'', ''Last event number: -1'']" .
next
  assume leaf: "GetLeaf t ''eventnumber'' = Some l"
  note run = GetEntries_with_leaf [OF assms(1,2) leaf]
  from run(3) show "reads (GetEntries env file (new_process s)) =
      [0, wrap32 (sint (fEntries t) - 1)]" .
  have lt: "wrap32 (sint (fEntries t) - 1) < sint (fEntries t)"
    using wrap32_less [of "sint (fEntries t) - 1"] assms(3) by simp
  from assms(3) have pos: "0 < sint (fEntries t)" by simp
  from pos have first: "GetValueLong64 env l (GetEntry t 0 (new_process s)) = l 0"
    by (simp add: GetValueLong64_def loaded_GetEntry)
  from pos lt have last: "GetValueLong64 env l (GetEntries env file (new_process s)) =
      l (max 0 (wrap32 (sint (fEntries t) - 1)))"
    by (simp add: GetValueLong64_def run(2) loaded_GetEntry max_def)
  from run(1) show "console (GetEntries env file (new_process s)) = console s @
             [''Getting events for '' @ file,
              ''Number of Entries: '' @ show_int (wrap32 (sint (fEntries t))),
              ''First event number: '' @ show_int (sint (l 0)),
              ''Last event number: '' @
                 show_int (sint (l (max 0 (wrap32 (sint (fEntries t) - 1)))))]"
    by (simp only: first last)
next
  from GetNumbers_with_tree(1) [OF assms(1,2)]
  show "textfiles (GetNumbers env file (new_process s)) ''numbers.txt'' =
           Some ((case textfiles s ''numbers.txt'' of None \<Rightarrow> [] | Some ls \<Rightarrow> ls) @
             (''nEntries '' @ show_int (wrap32 (sint (fEntries t)))) #
             Scan env t ''eventnumber'' 1 0 @
             Scan env t ''eventnumber'' 1 (wrap32 (sint (fEntries t) - 1)))"
    by (simp add: sint_Long64_to_int sint_Long64_to_int_minus1)
next
  assume "wrap32 (sint (fEntries t)) \<noteq> - (2 ^ 31)"
  then show "wrap32 (sint (fEntries t) - 1) = wrap32 (sint (fEntries t)) - 1"
    by (rule wrap32_pred)
qed

theorem count_wraps_beyond_int_witness:
  "TFile_Open (disk (file_of (tree_of 2147483653))) (location plain_env ''dst.root'') =
     Some (file_of (tree_of 2147483653)) \<and>
   Get (file_of (tree_of 2147483653)) ''T'' = Some (tree_of 2147483653) \<and>
   2 ^ 31 \<le> sint (fEntries (tree_of 2147483653)) \<and>
   sint (fEntries (tree_of 2147483653)) = 2147483653 \<and>
   GetLeaf (tree_of 2147483653) ''eventnumber'' = Some ids \<and>
   reads (GetEntries plain_env ''dst.root''
       (new_process (disk (file_of (tree_of 2147483653))))) = [0, - 2147483644] \<and>
   console (GetEntries plain_env ''dst.root''
       (new_process (disk (file_of (tree_of 2147483653))))) =
     [''Getting events for dst.root'', ''Number of Entries: -2147483643'',
      ''First event number: 101'', ''Last event number: 101''] \<and>
   textfiles (GetNumbers plain_env ''dst.root''
       (new_process (disk (file_of (tree_of 2147483653))))) ''numbers.txt'' =
     Some [''nEntries -2147483643'', ''0 101'']"
proof -
  have h1: "TFile_Open (disk (file_of (tree_of 2147483653))) (location plain_env ''dst.root'') =
      Some (file_of (tree_of 2147483653))"
    by (simp add: TFile_Open_def example_defs)
  have h2: "Get (file_of (tree_of 2147483653)) ''T'' = Some (tree_of 2147483653)"
    by (simp add: Get_def example_defs)
  have n: "sint (fEntries (tree_of 2147483653)) = 2147483653"
    by (simp add: tree_of_def)
  have h3: "2 ^ 31 \<le> sint (fEntries (tree_of 2147483653))"
    by (simp add: n)
  have h4: "GetLeaf (tree_of 2147483653) ''eventnumber'' = Some ids"
    by (simp add: GetLeaf_def tree_of_def)
  have w: "wrap32 2147483653 = - 2147483643" "wrap32 2147483652 = - 2147483644"
    by (simp_all add: wrap32_def)
  have v: "show_int (- 2147483643) = ''-2147483643''" "show_int (sint (ids 0)) = ''101''"
    "console (disk (file_of (tree_of 2147483653))) = []"
    "textfiles (disk (file_of (tree_of 2147483653))) ''numbers.txt'' = None"
    "Scan plain_env (tree_of 2147483653) ''eventnumber'' 1 0 = [''0 101'']"
    "Scan plain_env (tree_of 2147483653) ''eventnumber'' 1 (- 2147483644) = []"
    by (simp_all add: example_defs print_defs)
  from count_wraps_beyond_int [OF h1 h2 h3, of ids] h1 h2 h3 h4
  show ?thesis by (simp add: n w v)
qed

end
